theory Spec2Isabelle
  imports Main
begin

section \<open>Strings\<close>

text \<open>
  A string of the program is a sequence of 16-bit code units. The model has the strings
  whose code units are all below 256, that is the characters \<^verbatim>\<open>U+0000\<close> to \<^verbatim>\<open>U+00FF\<close>
  (ASCII and the Latin-1 supplement), as \<^typ>\<open>string\<close> with one \<^typ>\<open>char\<close> per code
  unit; strings with other characters are not values of the model. On this range the
  three string primitives the code relies on are written out in full:
  \<^item> \<^verbatim>\<open>toLowerCase\<close> maps \<^verbatim>\<open>A-Z\<close> to \<^verbatim>\<open>a-z\<close> and the capital letters \<^verbatim>\<open>U+00C0-U+00D6\<close>
    and \<^verbatim>\<open>U+00D8-U+00DE\<close> to the small letters 32 places up; every other character,
    among them the sharp s \<^verbatim>\<open>U+00DF\<close>, the micro sign and the small y with diaeresis, is
    its own lower-case form;
  \<^item> \<^verbatim>\<open>trim\<close> strips white space and line terminators from both ends: the code units
    9 to 13, 32 and the no-break space 160;
  \<^item> \<^verbatim>\<open>split\<close> cuts at every occurrence of a one-character separator.
\<close>

definition backslash :: char where
  "backslash = CHR 0x5C"

definition quote :: char where
  "quote = CHR 0x27"

definition upperLetters :: string where
  "upperLetters = ''ABCDEFGHIJKLMNOPQRSTUVWXYZ'' @
       [CHR 0xC0, CHR 0xC1, CHR 0xC2, CHR 0xC3, CHR 0xC4, CHR 0xC5, CHR 0xC6, CHR 0xC7,
        CHR 0xC8, CHR 0xC9, CHR 0xCA, CHR 0xCB, CHR 0xCC, CHR 0xCD, CHR 0xCE, CHR 0xCF,
        CHR 0xD0, CHR 0xD1, CHR 0xD2, CHR 0xD3, CHR 0xD4, CHR 0xD5, CHR 0xD6, CHR 0xD8,
        CHR 0xD9, CHR 0xDA, CHR 0xDB, CHR 0xDC, CHR 0xDD, CHR 0xDE]"

definition lowerLetters :: string where
  "lowerLetters = ''abcdefghijklmnopqrstuvwxyz'' @
       [CHR 0xE0, CHR 0xE1, CHR 0xE2, CHR 0xE3, CHR 0xE4, CHR 0xE5, CHR 0xE6, CHR 0xE7,
        CHR 0xE8, CHR 0xE9, CHR 0xEA, CHR 0xEB, CHR 0xEC, CHR 0xED, CHR 0xEE, CHR 0xEF,
        CHR 0xF0, CHR 0xF1, CHR 0xF2, CHR 0xF3, CHR 0xF4, CHR 0xF5, CHR 0xF6, CHR 0xF8,
        CHR 0xF9, CHR 0xFA, CHR 0xFB, CHR 0xFC, CHR 0xFD, CHR 0xFE]"

definition lowerChar :: "char \<Rightarrow> char" where
  "lowerChar c = (case map_of (zip upperLetters lowerLetters) c of None \<Rightarrow> c | Some l \<Rightarrow> l)"

definition toLowerCase :: "string \<Rightarrow> string" where
  "toLowerCase s = map lowerChar s"

definition isWhiteSpace :: "char \<Rightarrow> bool" where
  "isWhiteSpace c =
     (c \<in> set [CHR 0x09, CHR 0x0A, CHR 0x0B, CHR 0x0C, CHR 0x0D, CHR 0x20, CHR 0xA0])"

definition trim :: "string \<Rightarrow> string" where
  "trim s = rev (dropWhile isWhiteSpace (rev (dropWhile isWhiteSpace s)))"

fun split_str :: "char \<Rightarrow> string \<Rightarrow> string list" where
  "split_str sep [] = [[]]"
| "split_str sep (c # cs) =
     (if c = sep then [] # split_str sep cs
      else (case split_str sep cs of
              [] \<Rightarrow> [[c]]
            | seg # segs \<Rightarrow> (c # seg) # segs))"

fun join :: "string \<Rightarrow> string list \<Rightarrow> string" where
  "join sep [] = []"
| "join sep [x] = x"
| "join sep (x # y # ys) = x @ sep @ join sep (y # ys)"

definition startsWith :: "string \<Rightarrow> string \<Rightarrow> bool" where
  "startsWith s p = (take (length p) s = p)"

definition substring :: "string \<Rightarrow> nat \<Rightarrow> string" where
  "substring s n = drop n s"

section \<open>Objects used as dictionaries\<close>

text \<open>
  A \<^verbatim>\<open>Record<string, V>\<close> object is a plain object created by \<^verbatim>\<open>{}\<close>. Its own enumerable
  properties are an association list in the order in which \<^verbatim>\<open>Object.keys\<close> and
  \<^verbatim>\<open>Object.entries\<close> enumerate them: the keys that are array indices (canonical decimal
  numerals below \<open>2^32 - 1\<close>) first, in ascending numeric order, then all other keys in the
  order of their first insertion. Assigning to an existing key keeps its position.

  Reading \<^verbatim>\<open>obj[key]\<close> finds an own property first and otherwise a member inherited from
  \<^verbatim>\<open>Object.prototype\<close> (\<open>obj_lookup\<close>); every such member is a function or an object, so it
  is truthy. The key \<^verbatim>\<open>__proto__\<close> is an accessor of the prototype: reading it gives the
  prototype object, and the assignment \<^verbatim>\<open>obj['__proto__'] = v\<close> adds no own property
  (\<open>obj_assign\<close>). The code reads a dictionary by a name taken from the configuration in
  one place, the lookup of an allowed team name in \<^verbatim>\<open>getAllowedTeamIds\<close>, and that lookup and
  the assignment to the result beside it are modelled with \<open>obj_lookup\<close> and \<open>obj_assign\<close>.
  The other reads and writes use keys that come from the service (project and team names);
  they are modelled on the own properties (\<open>obj_get\<close>, \<open>obj_set\<close>), so a project or a
  team whose name is a member of \<^verbatim>\<open>Object.prototype\<close> is outside the model.
\<close>

type_synonym 'v jsobj = "(string \<times> 'v) list"

definition digitValue :: "char \<Rightarrow> nat option" where
  "digitValue c = map_of (zip ''0123456789'' [0, 1, 2, 3, 4, 5, 6, 7, 8, 9]) c"

definition isDigit :: "char \<Rightarrow> bool" where
  "isDigit c = (digitValue c \<noteq> None)"

definition numericValue :: "string \<Rightarrow> nat" where
  "numericValue s = foldl (\<lambda>a c. 10 * a + (case digitValue c of None \<Rightarrow> 0 | Some d \<Rightarrow> d)) 0 s"

definition isArrayIndex :: "string \<Rightarrow> bool" where
  "isArrayIndex k =
     (k \<noteq> [] \<and> list_all isDigit k \<and> (length k = 1 \<or> hd k \<noteq> CHR ''0'')
      \<and> numericValue k < 4294967295)"

definition obj_get :: "string \<Rightarrow> 'v jsobj \<Rightarrow> 'v option" where
  "obj_get k obj = map_of obj k"

definition objectPrototypeMembers :: "string list" where
  "objectPrototypeMembers =
     [''constructor'', ''__defineGetter__'', ''__defineSetter__'', ''hasOwnProperty'',
      ''__lookupGetter__'', ''__lookupSetter__'', ''isPrototypeOf'', ''propertyIsEnumerable'',
      ''toString'', ''valueOf'', ''__proto__'', ''toLocaleString'']"

datatype 'v property = Own 'v | Inherited string | Absent

definition obj_lookup :: "string \<Rightarrow> 'v jsobj \<Rightarrow> 'v property" where
  "obj_lookup k obj =
     (if k = ''__proto__'' then Inherited k
      else (case map_of obj k of
              Some v \<Rightarrow> Own v
            | None \<Rightarrow> if k \<in> set objectPrototypeMembers then Inherited k else Absent))"

definition obj_keys :: "'v jsobj \<Rightarrow> string list" where
  "obj_keys obj = map fst obj"

fun obj_replace :: "string \<Rightarrow> 'v \<Rightarrow> 'v jsobj \<Rightarrow> 'v jsobj" where
  "obj_replace k v [] = []"
| "obj_replace k v ((k', v') # rest) =
     (if k' = k then (k, v) # rest else (k', v') # obj_replace k v rest)"

fun obj_insert_index :: "string \<Rightarrow> 'v \<Rightarrow> 'v jsobj \<Rightarrow> 'v jsobj" where
  "obj_insert_index k v [] = [(k, v)]"
| "obj_insert_index k v ((k', v') # rest) =
     (if isArrayIndex k' \<and> numericValue k' < numericValue k
      then (k', v') # obj_insert_index k v rest
      else (k, v) # (k', v') # rest)"

definition obj_set :: "string \<Rightarrow> 'v \<Rightarrow> 'v jsobj \<Rightarrow> 'v jsobj" where
  "obj_set k v obj =
     (if map_of obj k \<noteq> None then obj_replace k v obj
      else if isArrayIndex k then obj_insert_index k v obj
      else obj @ [(k, v)])"

definition obj_assign :: "string \<Rightarrow> 'v \<Rightarrow> 'v jsobj \<Rightarrow> 'v jsobj" where
  "obj_assign k v obj = (if k = ''__proto__'' then obj else obj_set k v obj)"

section \<open>Data model\<close>

text \<open>The configuration record of \<^verbatim>\<open>shared/types/config.ts\<close>; optional fields are options.\<close>

record AzureDevOpsConfig =
  organizationUrl :: string
  authMethod :: "string option"
  personalAccessToken :: "string option"
  configDefaultProject :: "string option"
  apiVersion :: "string option"
  allowedTeamBoards :: "string option"

text \<open>A team as the core API returns it: both fields may be missing.\<close>

record WebApiTeam =
  team_id :: "string option"
  team_name :: "string option"

text \<open>
  A work item: its optional numeric id and its optional field dictionary. A field holds any
  value; the code only asks whether it is a non-empty string.
\<close>

datatype field_value = FString string | FNumber int | FBoolean bool | FNull

record WorkItem =
  wi_id :: "int option"
  wi_fields :: "(string \<rightharpoonup> field_value) option"

text \<open>
  Every message template of the code is one constructor, with the values the template
  interpolates as its arguments (lists stand for the \<^verbatim>\<open>join(', ')\<close> of their elements):
  \<^item> \<open>BoardAccessRestricted\<close>: "Board access is restricted. No team boards are configured
    ... To enable board access, set ...";
  \<^item> \<open>BoardCreationRestricted\<close>: the same, ending "To enable work item creation, set ...";
  \<^item> \<open>FailedToGetTeams project cause\<close>: "Failed to get teams for project ...";
  \<^item> \<open>TeamIdNotFound item team project\<close>: "Cannot verify team board access for work item
    #... Team ID ... not found in project ...";
  \<^item> \<open>NoTeamOrAreaPath item\<close>: "... The work item does not have an associated team or area
    path.";
  \<^item> \<open>CannotExtractTeamName item areaPath\<close>: "... Could not extract team name from area
    path ...";
  \<^item> \<open>WorkItemAccessDenied item team allowed\<close>: "Access denied. Work item #... belongs to
    team board ... which is not in the allowed list. Allowed teams: ...";
  \<^item> \<open>TeamNotFound team project\<close>: "Cannot verify team board access. Team ... not found in
    project ...";
  \<^item> \<open>TeamAccessDenied team allowed\<close>: "Access denied. Team board ... is not in the allowed
    list. Allowed teams: ...";
  \<^item> \<open>TeamBoardsNotFound project notFound available\<close>: "The following team boards are not
    found in project ...: .... Available teams: ....";
  \<^item> \<open>WorkItemNotFound id\<close>: "Work item ... not found";
  \<^item> \<open>MultipleTeamBoards allowed project\<close>: "Multiple team boards are configured (...).
    Please specify the areaPath parameter ...";
  \<^item> \<open>UnknownTool name\<close>: "Unknown work items tool: ...".
\<close>

datatype message =
    BoardAccessRestricted
  | BoardCreationRestricted
  | FailedToGetTeams string string
  | TeamIdNotFound "int option" string string
  | NoTeamOrAreaPath "int option"
  | CannotExtractTeamName "int option" string
  | WorkItemAccessDenied "int option" string "string list"
  | TeamNotFound string string
  | TeamAccessDenied string "string list"
  | TeamBoardsNotFound string "string list" "string list"
  | WorkItemNotFound int
  | MultipleTeamBoards "string list" string
  | UnknownTool string

text \<open>
  What a call can throw: the validation error class, a plain \<^verbatim>\<open>Error\<close>, or whatever a
  collaborator (the service client, a schema, a feature function) rejected with, kept as
  its message text.
\<close>

datatype error =
    AzureDevOpsValidationError message
  | Error message
  | Rejected string

section \<open>The service connection and the module state\<close>

type_synonym other_fields = "(string \<times> field_value) list"

type_synonym json_text = string

record ListWorkItemsOptions =
  lo_projectId :: string
  lo_teamId :: "string option"
  lo_queryId :: "string option"
  lo_wiql :: "string option"
  lo_top :: "int option"
  lo_skip :: "int option"

text \<open>Every call that leaves the process, in the order in which it is made.\<close>

datatype call =
    Call_getTeams string
  | Call_getWorkItemApi int
  | Call_getWorkItem int "string option"
  | Call_listWorkItems ListWorkItemsOptions
  | Call_createWorkItem string string "string option" other_fields
  | Call_updateWorkItem int "string option" other_fields
  | Call_manageWorkItemLink string int int other_fields

text \<open>
  The connection stands for the work-tracking service and the feature functions built on
  it, none of which is part of the access-control code. Each answer may depend on the
  calls made so far (the first argument), so the service may change between two calls.
  An answer is either the rejection's message or the value. \<open>api_getTeams\<close> is
  \<^verbatim>\<open>(await connection.getCoreApi()).getTeams(projectId)\<close>, \<open>api_getWorkItem\<close> is
  \<^verbatim>\<open>(await connection.getWorkItemTrackingApi()).getWorkItem(id, undefined, undefined, All)\<close>.
\<close>

record connection =
  api_getTeams :: "call list \<Rightarrow> string \<Rightarrow> string + WebApiTeam list"
  api_getWorkItem :: "call list \<Rightarrow> int \<Rightarrow> string + WorkItem option"
  getWorkItem :: "call list \<Rightarrow> int \<Rightarrow> string option \<Rightarrow> string + json_text"
  listWorkItems :: "call list \<Rightarrow> ListWorkItemsOptions \<Rightarrow> string + json_text"
  createWorkItem :: "call list \<Rightarrow> string \<Rightarrow> string \<Rightarrow> string option \<Rightarrow> other_fields \<Rightarrow> string + json_text"
  updateWorkItem :: "call list \<Rightarrow> int \<Rightarrow> string option \<Rightarrow> other_fields \<Rightarrow> string + json_text"
  manageWorkItemLink :: "call list \<Rightarrow> string \<Rightarrow> int \<Rightarrow> int \<Rightarrow> other_fields \<Rightarrow> string + json_text"

text \<open>
  The module-level \<^verbatim>\<open>teamCache\<close> (\<^verbatim>\<open>{ projectId: { teamName: teamId } }\<close>) and the log of
  outgoing calls.
\<close>

record state =
  teamCache :: "(string jsobj) jsobj"
  calls :: "call list"

type_synonym 'a result = "(error + 'a) \<times> state"

definition performed :: "call \<Rightarrow> state \<Rightarrow> state" where
  "performed c s = s\<lparr>calls := calls s @ [c]\<rparr>"

text \<open>\<^verbatim>\<open>if (!teamCache[p]) teamCache[p] = {}; teamCache[p][name] = id\<close>\<close>

definition cache_put :: "string \<Rightarrow> string \<Rightarrow> string \<Rightarrow> (string jsobj) jsobj \<Rightarrow> (string jsobj) jsobj" where
  "cache_put projectId teamName teamId cache =
     (case obj_get projectId cache of
        None \<Rightarrow> obj_set projectId (obj_set teamName teamId []) cache
      | Some entry \<Rightarrow> obj_set projectId (obj_set teamName teamId entry) cache)"

section \<open>utils/team-board-validation.ts\<close>

definition parseAllowedTeamBoards :: "string option \<Rightarrow> string list option" where
  "parseAllowedTeamBoards allowedTeamBoards' =
     (case allowedTeamBoards' of
        None \<Rightarrow> None
      | Some a \<Rightarrow>
          if a = [] \<or> trim a = [] then None
          else Some (filter (\<lambda>team. length team > 0) (map trim (split_str CHR '','' a))))"

definition getAllTeams :: "connection \<Rightarrow> string \<Rightarrow> state \<Rightarrow> (WebApiTeam list) result" where
  "getAllTeams conn projectId s =
     (case api_getTeams conn (calls s) projectId of
        Inl cause \<Rightarrow>
          (Inl (AzureDevOpsValidationError (FailedToGetTeams projectId cause)),
           performed (Call_getTeams projectId) s)
      | Inr teams \<Rightarrow> (Inr teams, performed (Call_getTeams projectId) s))"

definition getTeamNameById :: "connection \<Rightarrow> string \<Rightarrow> string \<Rightarrow> state \<Rightarrow> (string option) result" where
  "getTeamNameById conn projectId teamId s =
     (case (case obj_get projectId (teamCache s) of
              None \<Rightarrow> None
            | Some entry \<Rightarrow> find (\<lambda>(name, i). i = teamId) entry) of
        Some (name, i) \<Rightarrow> (Inr (Some name), s)
      | None \<Rightarrow>
         (case getAllTeams conn projectId s of
            (Inl e, s') \<Rightarrow> (Inl e, s')
          | (Inr teams, s') \<Rightarrow>
             (case find (\<lambda>t. team_id t = Some teamId) teams of
                None \<Rightarrow> (Inr None, s')
              | Some team \<Rightarrow>
                 (case (team_name team, team_id team) of
                    (Some teamName, Some teamIdValue) \<Rightarrow>
                      if teamName \<noteq> [] \<and> teamIdValue \<noteq> []
                      then (Inr (Some teamName),
                            s'\<lparr>teamCache :=
                                  cache_put projectId (toLowerCase teamName) teamIdValue (teamCache s')\<rparr>)
                      else (Inr None, s')
                  | _ \<Rightarrow> (Inr None, s')))))"

definition isTeamAllowed :: "string list option \<Rightarrow> string \<Rightarrow> bool" where
  "isTeamAllowed allowedTeamBoards' teamName =
     (case allowedTeamBoards' of
        None \<Rightarrow> False
      | Some allowed \<Rightarrow>
          if length allowed = 0 then False
          else list_ex (\<lambda>allowedTeam. toLowerCase allowedTeam = toLowerCase teamName) allowed)"

text \<open>
  \<^verbatim>\<open>getAllowedTeamIds\<close>: the first loop indexes every team that has a name and an id under
  its lower-case name, in the local \<^verbatim>\<open>teamMap\<close> and in the cache; the second loop reads
  \<^verbatim>\<open>teamMap[teamName.toLowerCase()]\<close> for every allowed name and collects the names for
  which the value read is falsy. \<^verbatim>\<open>teamMap\<close> is a plain object, so for a name whose lower-case
  form is a member of \<^verbatim>\<open>Object.prototype\<close> and no team's name the value read is that member:
  it is truthy, and it becomes the \<^verbatim>\<open>id\<close> of the result's entry.
\<close>

datatype id_value = TeamId string | PrototypeMember string

record TeamRef =
  ref_id :: id_value

definition indexTeam :: "string \<Rightarrow> string jsobj \<times> (string jsobj) jsobj \<Rightarrow> WebApiTeam
    \<Rightarrow> string jsobj \<times> (string jsobj) jsobj" where
  "indexTeam projectId acc team =
     (case acc of (teamMap, cache) \<Rightarrow>
        (case (team_name team, team_id team) of
           (Some n, Some i) \<Rightarrow>
             if n \<noteq> [] \<and> i \<noteq> []
             then (obj_set (toLowerCase n) i teamMap, cache_put projectId (toLowerCase n) i cache)
             else (teamMap, cache)
         | _ \<Rightarrow> (teamMap, cache)))"

definition resolveAllowed :: "string jsobj \<Rightarrow> TeamRef jsobj \<times> string list \<Rightarrow> string
    \<Rightarrow> TeamRef jsobj \<times> string list" where
  "resolveAllowed teamMap acc teamName =
     (case acc of (result, notFound) \<Rightarrow>
        (case obj_lookup (toLowerCase teamName) teamMap of
           Absent \<Rightarrow> (result, notFound @ [teamName])
         | Own teamId \<Rightarrow>
             if teamId \<noteq> []
             then (obj_assign teamName \<lparr>ref_id = TeamId teamId\<rparr> result, notFound)
             else (result, notFound @ [teamName])
         | Inherited member \<Rightarrow>
             (obj_assign teamName \<lparr>ref_id = PrototypeMember member\<rparr> result, notFound)))"

definition availableTeams :: "WebApiTeam list \<Rightarrow> string list" where
  "availableTeams allTeams =
     filter (\<lambda>n. n \<noteq> [])
       (map (\<lambda>t. case team_name t of None \<Rightarrow> ''Unknown''
                 | Some n \<Rightarrow> if n = [] then ''Unknown'' else n) allTeams)"

definition getAllowedTeamIds :: "connection \<Rightarrow> string \<Rightarrow> string list \<Rightarrow> state \<Rightarrow> (TeamRef jsobj) result" where
  "getAllowedTeamIds conn projectId allowedTeamNames s =
     (case api_getTeams conn (calls s) projectId of
        Inl cause \<Rightarrow> (Inl (Rejected cause), performed (Call_getTeams projectId) s)
      | Inr allTeams \<Rightarrow>
         (case foldl (indexTeam projectId) ([], teamCache s) allTeams of
            (teamMap, cache) \<Rightarrow>
              (case foldl (resolveAllowed teamMap) ([], []) allowedTeamNames of
                 (result, notFound) \<Rightarrow>
                   if length notFound > 0
                   then (Inl (AzureDevOpsValidationError
                                (TeamBoardsNotFound projectId notFound (availableTeams allTeams))),
                         (performed (Call_getTeams projectId) s)\<lparr>teamCache := cache\<rparr>)
                   else (Inr result, (performed (Call_getTeams projectId) s)\<lparr>teamCache := cache\<rparr>))))"

definition getWorkItemTeamId :: "WorkItem \<Rightarrow> string option" where
  "getWorkItemTeamId workItem =
     (case wi_fields workItem of
        None \<Rightarrow> None
      | Some fieldMap \<Rightarrow>
         (case fieldMap ''System.TeamId'' of
            Some (FString teamId) \<Rightarrow> if teamId \<noteq> [] then Some teamId else None
          | _ \<Rightarrow> None))"

definition getWorkItemAreaPath :: "WorkItem \<Rightarrow> string option" where
  "getWorkItemAreaPath workItem =
     (case wi_fields workItem of
        None \<Rightarrow> None
      | Some fieldMap \<Rightarrow>
         (case fieldMap ''System.AreaPath'' of
            Some (FString areaPath) \<Rightarrow> if areaPath \<noteq> [] then Some areaPath else None
          | _ \<Rightarrow> None))"

definition extractTeamNameFromAreaPath :: "string \<Rightarrow> string \<Rightarrow> string option" where
  "extractTeamNameFromAreaPath areaPath projectId =
     (let pathWithoutProject =
            (if startsWith areaPath (projectId @ [backslash])
             then substring areaPath (length projectId + 1)
             else areaPath);
          segments = split_str backslash pathWithoutProject
      in case segments of
           [] \<Rightarrow> None
         | segment # _ \<Rightarrow> if segment \<noteq> [] then Some segment else None)"

definition validateWorkItemTeamAccess :: "AzureDevOpsConfig \<Rightarrow> connection \<Rightarrow> string \<Rightarrow> WorkItem
    \<Rightarrow> state \<Rightarrow> unit result" where
  "validateWorkItemTeamAccess config conn projectId workItem s =
     (case parseAllowedTeamBoards (allowedTeamBoards config) of
        None \<Rightarrow> (Inl (AzureDevOpsValidationError BoardAccessRestricted), s)
      | Some allowedTeams \<Rightarrow>
         if length allowedTeams = 0
         then (Inl (AzureDevOpsValidationError BoardAccessRestricted), s)
         else
          (case (case getWorkItemTeamId workItem of
                   Some workItemTeamId \<Rightarrow>
                     (case getTeamNameById conn projectId workItemTeamId s of
                        (Inl e, s') \<Rightarrow> (Inl e, s')
                      | (Inr None, s') \<Rightarrow>
                          (Inl (AzureDevOpsValidationError
                                  (TeamIdNotFound (wi_id workItem) workItemTeamId projectId)), s')
                      | (Inr (Some teamName), s') \<Rightarrow>
                          if teamName = []
                          then (Inl (AzureDevOpsValidationError
                                       (TeamIdNotFound (wi_id workItem) workItemTeamId projectId)), s')
                          else (Inr teamName, s'))
                 | None \<Rightarrow>
                     (case getWorkItemAreaPath workItem of
                        None \<Rightarrow>
                          (Inl (AzureDevOpsValidationError (NoTeamOrAreaPath (wi_id workItem))), s)
                      | Some areaPath \<Rightarrow>
                         (case extractTeamNameFromAreaPath areaPath projectId of
                            None \<Rightarrow>
                              (Inl (AzureDevOpsValidationError
                                      (CannotExtractTeamName (wi_id workItem) areaPath)), s)
                          | Some teamName \<Rightarrow> (Inr teamName, s)))) of
             (Inl e, s') \<Rightarrow> (Inl e, s')
           | (Inr teamName, s') \<Rightarrow>
               if \<not> isTeamAllowed (Some allowedTeams) teamName
               then (Inl (AzureDevOpsValidationError
                            (WorkItemAccessDenied (wi_id workItem) teamName allowedTeams)), s')
               else (Inr (), s')))"

definition validateTeamBoardAccess :: "AzureDevOpsConfig \<Rightarrow> connection \<Rightarrow> string \<Rightarrow> string option
    \<Rightarrow> state \<Rightarrow> unit result" where
  "validateTeamBoardAccess config conn projectId teamId s =
     (case parseAllowedTeamBoards (allowedTeamBoards config) of
        None \<Rightarrow> (Inl (AzureDevOpsValidationError BoardAccessRestricted), s)
      | Some allowedTeams \<Rightarrow>
         if length allowedTeams = 0
         then (Inl (AzureDevOpsValidationError BoardAccessRestricted), s)
         else
          (case teamId of
             None \<Rightarrow> (Inr (), s)
           | Some tid \<Rightarrow>
              if tid = [] then (Inr (), s)
              else
               (case getTeamNameById conn projectId tid s of
                  (Inl e, s') \<Rightarrow> (Inl e, s')
                | (Inr None, s') \<Rightarrow>
                    (Inl (AzureDevOpsValidationError (TeamNotFound tid projectId)), s')
                | (Inr (Some teamName), s') \<Rightarrow>
                    if teamName = []
                    then (Inl (AzureDevOpsValidationError (TeamNotFound tid projectId)), s')
                    else if \<not> isTeamAllowed (Some allowedTeams) teamName
                    then (Inl (AzureDevOpsValidationError
                                 (TeamAccessDenied teamName allowedTeams)), s')
                    else (Inr (), s'))))"

definition fetchAndValidateWorkItem :: "AzureDevOpsConfig \<Rightarrow> connection \<Rightarrow> string \<Rightarrow> int
    \<Rightarrow> state \<Rightarrow> WorkItem result" where
  "fetchAndValidateWorkItem config conn projectId workItemId s =
     (case api_getWorkItem conn (calls s) workItemId of
        Inl cause \<Rightarrow> (Inl (Rejected cause), performed (Call_getWorkItemApi workItemId) s)
      | Inr None \<Rightarrow>
          (Inl (AzureDevOpsValidationError (WorkItemNotFound workItemId)),
           performed (Call_getWorkItemApi workItemId) s)
      | Inr (Some workItem) \<Rightarrow>
         (case validateWorkItemTeamAccess config conn projectId workItem
                 (performed (Call_getWorkItemApi workItemId) s) of
            (Inl e, s') \<Rightarrow> (Inl e, s')
          | (Inr u, s') \<Rightarrow> (Inr workItem, s')))"

section \<open>The work items request handler\<close>

text \<open>
  The arguments of each tool after its schema has parsed them. The fields the handler only
  copies into the options of the feature function (title, description, state, relation
  type and so on) are kept together as \<open>others\<close>.
\<close>

record GetWorkItemArgs =
  ga_workItemId :: int
  ga_expand :: "string option"

record ListWorkItemsArgs =
  la_projectId :: "string option"
  la_teamId :: "string option"
  la_queryId :: "string option"
  la_wiql :: "string option"
  la_top :: "int option"
  la_skip :: "int option"

record CreateWorkItemArgs =
  ca_projectId :: "string option"
  ca_workItemType :: string
  ca_areaPath :: "string option"
  ca_others :: other_fields

record UpdateWorkItemArgs =
  ua_workItemId :: int
  ua_areaPath :: "string option"
  ua_others :: other_fields

record ManageWorkItemLinkArgs =
  ma_projectId :: "string option"
  ma_sourceWorkItemId :: int
  ma_targetWorkItemId :: int
  ma_others :: other_fields

record CallToolRequest =
  req_name :: string
  req_arguments :: other_fields

text \<open>
  What the handler's module imports and this development does not have: the default
  project of \<^verbatim>\<open>utils/environment\<close> and the five argument schemas, each a parser that
  rejects (with a message) or yields the typed arguments.
\<close>

record module_imports =
  defaultProject :: string
  GetWorkItemSchema :: "other_fields \<Rightarrow> string + GetWorkItemArgs"
  ListWorkItemsSchema :: "other_fields \<Rightarrow> string + ListWorkItemsArgs"
  CreateWorkItemSchema :: "other_fields \<Rightarrow> string + CreateWorkItemArgs"
  UpdateWorkItemSchema :: "other_fields \<Rightarrow> string + UpdateWorkItemArgs"
  ManageWorkItemLinkSchema :: "other_fields \<Rightarrow> string + ManageWorkItemLinkArgs"

text \<open>
  The response \<^verbatim>\<open>{ content: [{ type: 'text', text: JSON.stringify(result, null, 2) }] }\<close>:
  the text is the serialisation either of a fetched work item or of what a feature
  function returned.
\<close>

datatype CallToolResponse = TextOfWorkItem WorkItem | TextOfResult json_text

definition respond :: "call \<Rightarrow> string + json_text \<Rightarrow> state \<Rightarrow> CallToolResponse result" where
  "respond c answer s =
     (case answer of
        Inl cause \<Rightarrow> (Inl (Rejected cause), performed c s)
      | Inr r \<Rightarrow> (Inr (TextOfResult r), performed c s))"

definition case_get_work_item :: "module_imports \<Rightarrow> connection \<Rightarrow> CallToolRequest
    \<Rightarrow> AzureDevOpsConfig option \<Rightarrow> state \<Rightarrow> CallToolResponse result" where
  "case_get_work_item imp conn request config s =
     (case GetWorkItemSchema imp (req_arguments request) of
        Inl cause \<Rightarrow> (Inl (Rejected cause), s)
      | Inr args \<Rightarrow>
         (case config of
            Some c \<Rightarrow>
              (case fetchAndValidateWorkItem c conn (defaultProject imp) (ga_workItemId args) s of
                 (Inl e, s') \<Rightarrow> (Inl e, s')
               | (Inr r, s') \<Rightarrow> (Inr (TextOfWorkItem r), s'))
          | None \<Rightarrow>
              respond (Call_getWorkItem (ga_workItemId args) (ga_expand args))
                (getWorkItem conn (calls s) (ga_workItemId args) (ga_expand args)) s))"

definition areaPathCondition :: "string \<Rightarrow> string \<Rightarrow> string" where
  "areaPathCondition projectId teamName =
     ''[System.AreaPath] UNDER '' @ [quote] @ projectId @ [backslash] @ teamName @ [quote]"

definition buildWiql :: "string \<Rightarrow> string list \<Rightarrow> string" where
  "buildWiql projectId areaPathConditions =
     ''SELECT [System.Id] FROM WorkItems WHERE [System.TeamProject] = '' @ [quote] @ projectId
       @ [quote] @ '' AND ('' @ join '' OR '' areaPathConditions @ '') ORDER BY [System.Id]''"

definition case_list_work_items :: "module_imports \<Rightarrow> connection \<Rightarrow> CallToolRequest
    \<Rightarrow> AzureDevOpsConfig option \<Rightarrow> state \<Rightarrow> CallToolResponse result" where
  "case_list_work_items imp conn request config s =
     (case ListWorkItemsSchema imp (req_arguments request) of
        Inl cause \<Rightarrow> (Inl (Rejected cause), s)
      | Inr args \<Rightarrow>
         (let projectId = (case la_projectId args of None \<Rightarrow> defaultProject imp | Some p \<Rightarrow> p);
              unrestricted = \<lparr>lo_projectId = projectId, lo_teamId = la_teamId args,
                 lo_queryId = la_queryId args, lo_wiql = la_wiql args,
                 lo_top = la_top args, lo_skip = la_skip args\<rparr>
          in case config of
               None \<Rightarrow>
                 respond (Call_listWorkItems unrestricted) (listWorkItems conn (calls s) unrestricted) s
             | Some c \<Rightarrow>
                (case parseAllowedTeamBoards (allowedTeamBoards c) of
                   None \<Rightarrow> (Inl (Error BoardAccessRestricted), s)
                 | Some allowedTeams \<Rightarrow>
                    if length allowedTeams = 0 then (Inl (Error BoardAccessRestricted), s)
                    else if la_teamId args \<noteq> None \<and> la_teamId args \<noteq> Some []
                    then
                     (case validateTeamBoardAccess c conn projectId (la_teamId args) s of
                        (Inl e, s') \<Rightarrow> (Inl e, s')
                      | (Inr u, s') \<Rightarrow>
                          respond (Call_listWorkItems unrestricted)
                            (listWorkItems conn (calls s') unrestricted) s')
                    else
                     (case getAllowedTeamIds conn projectId allowedTeams s of
                        (Inl e, s') \<Rightarrow> (Inl e, s')
                      | (Inr teamsData, s') \<Rightarrow>
                         (let areaPathConditions =
                                map (areaPathCondition projectId) (obj_keys teamsData);
                              wiql = buildWiql projectId areaPathConditions;
                              scoped = \<lparr>lo_projectId = projectId, lo_teamId = None,
                                 lo_queryId = None, lo_wiql = Some wiql,
                                 lo_top = la_top args, lo_skip = la_skip args\<rparr>
                          in respond (Call_listWorkItems scoped)
                               (listWorkItems conn (calls s') scoped) s')))))"

definition case_create_work_item :: "module_imports \<Rightarrow> connection \<Rightarrow> CallToolRequest
    \<Rightarrow> AzureDevOpsConfig option \<Rightarrow> state \<Rightarrow> CallToolResponse result" where
  "case_create_work_item imp conn request config s =
     (case CreateWorkItemSchema imp (req_arguments request) of
        Inl cause \<Rightarrow> (Inl (Rejected cause), s)
      | Inr args \<Rightarrow>
         (let projectId = (case ca_projectId args of None \<Rightarrow> defaultProject imp | Some p \<Rightarrow> p)
          in case (case config of
                     None \<Rightarrow> Inr (ca_areaPath args)
                   | Some c \<Rightarrow>
                      if ca_areaPath args \<noteq> None \<and> ca_areaPath args \<noteq> Some []
                      then Inr (ca_areaPath args)
                      else
                       (case parseAllowedTeamBoards (allowedTeamBoards c) of
                          None \<Rightarrow> Inl (AzureDevOpsValidationError BoardCreationRestricted)
                        | Some allowedTeams \<Rightarrow>
                           if length allowedTeams = 1
                           then Inr (Some (projectId @ [backslash] @ allowedTeams ! 0))
                           else if length allowedTeams > 1
                           then Inl (AzureDevOpsValidationError
                                       (MultipleTeamBoards allowedTeams projectId))
                           else Inl (AzureDevOpsValidationError BoardCreationRestricted))) of
               Inl e \<Rightarrow> (Inl e, s)
             | Inr effectiveAreaPath \<Rightarrow>
                 respond (Call_createWorkItem projectId (ca_workItemType args) effectiveAreaPath
                            (ca_others args))
                   (createWorkItem conn (calls s) projectId (ca_workItemType args)
                      effectiveAreaPath (ca_others args)) s))"

definition case_update_work_item :: "module_imports \<Rightarrow> connection \<Rightarrow> CallToolRequest
    \<Rightarrow> AzureDevOpsConfig option \<Rightarrow> state \<Rightarrow> CallToolResponse result" where
  "case_update_work_item imp conn request config s =
     (case UpdateWorkItemSchema imp (req_arguments request) of
        Inl cause \<Rightarrow> (Inl (Rejected cause), s)
      | Inr args \<Rightarrow>
         (case (case config of
                  None \<Rightarrow> (Inr (), s)
                | Some c \<Rightarrow>
                   (case fetchAndValidateWorkItem c conn (defaultProject imp) (ua_workItemId args) s of
                      (Inl e, s') \<Rightarrow> (Inl e, s')
                    | (Inr w, s') \<Rightarrow> (Inr (), s'))) of
            (Inl e, s') \<Rightarrow> (Inl e, s')
          | (Inr u, s') \<Rightarrow>
              respond (Call_updateWorkItem (ua_workItemId args) (ua_areaPath args) (ua_others args))
                (updateWorkItem conn (calls s') (ua_workItemId args) (ua_areaPath args)
                   (ua_others args)) s'))"

definition case_manage_work_item_link :: "module_imports \<Rightarrow> connection \<Rightarrow> CallToolRequest
    \<Rightarrow> AzureDevOpsConfig option \<Rightarrow> state \<Rightarrow> CallToolResponse result" where
  "case_manage_work_item_link imp conn request config s =
     (case ManageWorkItemLinkSchema imp (req_arguments request) of
        Inl cause \<Rightarrow> (Inl (Rejected cause), s)
      | Inr args \<Rightarrow>
         (let projectId = (case ma_projectId args of None \<Rightarrow> defaultProject imp | Some p \<Rightarrow> p)
          in case (case config of
                     None \<Rightarrow> (Inr (), s)
                   | Some c \<Rightarrow>
                      (case fetchAndValidateWorkItem c conn projectId (ma_sourceWorkItemId args) s of
                         (Inl e, s') \<Rightarrow> (Inl e, s')
                       | (Inr w, s') \<Rightarrow>
                          (case fetchAndValidateWorkItem c conn projectId
                                  (ma_targetWorkItemId args) s' of
                             (Inl e, s'') \<Rightarrow> (Inl e, s'')
                           | (Inr w', s'') \<Rightarrow> (Inr (), s'')))) of
               (Inl e, s') \<Rightarrow> (Inl e, s')
             | (Inr u, s') \<Rightarrow>
                 respond (Call_manageWorkItemLink projectId (ma_sourceWorkItemId args)
                            (ma_targetWorkItemId args) (ma_others args))
                   (manageWorkItemLink conn (calls s') projectId (ma_sourceWorkItemId args)
                      (ma_targetWorkItemId args) (ma_others args)) s'))"

definition handleWorkItemsRequest :: "module_imports \<Rightarrow> connection \<Rightarrow> CallToolRequest
    \<Rightarrow> AzureDevOpsConfig option \<Rightarrow> state \<Rightarrow> CallToolResponse result" where
  "handleWorkItemsRequest imp conn request config s =
     (case (case config of
              None \<Rightarrow> (Inr (), s)
            | Some c \<Rightarrow> validateTeamBoardAccess c conn (defaultProject imp) None s) of
        (Inl e, s') \<Rightarrow> (Inl e, s')
      | (Inr u, s') \<Rightarrow>
          if req_name request = ''get_work_item''
          then case_get_work_item imp conn request config s'
          else if req_name request = ''list_work_items''
          then case_list_work_items imp conn request config s'
          else if req_name request = ''create_work_item''
          then case_create_work_item imp conn request config s'
          else if req_name request = ''update_work_item''
          then case_update_work_item imp conn request config s'
          else if req_name request = ''manage_work_item_link''
          then case_manage_work_item_link imp conn request config s'
          else (Inl (Error (UnknownTool (req_name request))), s'))"

section \<open>Example data\<close>

text \<open>
  A small project used to instantiate the theorems below: project \<^verbatim>\<open>ProjectX\<close> with the
  teams Alpha and Beta, and four work items (1: team id of Alpha; 2: no team id, area path
  \<^verbatim>\<open>ProjectX\Beta\Sub\<close>; 3: no team id, area path \<^verbatim>\<open>ProjectX\<close>; 4: an unknown team id).
\<close>

definition exampleTeams :: "WebApiTeam list" where
  "exampleTeams =
     [\<lparr>team_id = Some ''t-alpha'', team_name = Some ''Alpha''\<rparr>,
      \<lparr>team_id = Some ''t-beta'', team_name = Some ''Beta''\<rparr>]"

definition exampleItem :: "int \<Rightarrow> string option \<Rightarrow> string option \<Rightarrow> WorkItem" where
  "exampleItem n teamId areaPath =
     \<lparr>wi_id = Some n,
      wi_fields = Some (\<lambda>k. if k = ''System.TeamId'' then map_option FString teamId
                            else if k = ''System.AreaPath'' then map_option FString areaPath
                            else None)\<rparr>"

definition exampleWorkItems :: "int \<Rightarrow> WorkItem option" where
  "exampleWorkItems n =
     (if n = 1 then Some (exampleItem 1 (Some ''t-alpha'') (Some (''ProjectX'' @ [backslash] @ ''Alpha'')))
      else if n = 2 then Some (exampleItem 2 None
                                 (Some (''ProjectX'' @ [backslash] @ ''Beta'' @ [backslash] @ ''Sub'')))
      else if n = 3 then Some (exampleItem 3 None (Some ''ProjectX''))
      else if n = 4 then Some (exampleItem 4 (Some ''t-gamma'') None)
      else None)"

definition exampleConnection :: connection where
  "exampleConnection =
     \<lparr>api_getTeams = (\<lambda>h p. Inr exampleTeams),
      api_getWorkItem = (\<lambda>h n. Inr (exampleWorkItems n)),
      getWorkItem = (\<lambda>h n e. Inr ''{}''),
      listWorkItems = (\<lambda>h opts. Inr ''[]''),
      createWorkItem = (\<lambda>h p t a others. Inr ''{}''),
      updateWorkItem = (\<lambda>h n a others. Inr ''{}''),
      manageWorkItemLink = (\<lambda>h p a b others. Inr ''{}'')\<rparr>"

definition stringArg :: "other_fields \<Rightarrow> string \<Rightarrow> string option" where
  "stringArg raw k = (case map_of raw k of Some (FString v) \<Rightarrow> Some v | _ \<Rightarrow> None)"

definition numberArg :: "other_fields \<Rightarrow> string \<Rightarrow> int option" where
  "numberArg raw k = (case map_of raw k of Some (FNumber n) \<Rightarrow> Some n | _ \<Rightarrow> None)"

definition exampleImports :: module_imports where
  "exampleImports =
     \<lparr>defaultProject = ''ProjectX'',
      GetWorkItemSchema = (\<lambda>raw. case numberArg raw ''workItemId'' of
          None \<Rightarrow> Inl ''Required''
        | Some n \<Rightarrow> Inr \<lparr>ga_workItemId = n, ga_expand = stringArg raw ''expand''\<rparr>),
      ListWorkItemsSchema = (\<lambda>raw. Inr \<lparr>la_projectId = stringArg raw ''projectId'',
          la_teamId = stringArg raw ''teamId'', la_queryId = stringArg raw ''queryId'',
          la_wiql = stringArg raw ''wiql'', la_top = numberArg raw ''top'',
          la_skip = numberArg raw ''skip''\<rparr>),
      CreateWorkItemSchema = (\<lambda>raw. case stringArg raw ''workItemType'' of
          None \<Rightarrow> Inl ''Required''
        | Some t \<Rightarrow> Inr \<lparr>ca_projectId = stringArg raw ''projectId'', ca_workItemType = t,
            ca_areaPath = stringArg raw ''areaPath'', ca_others = []\<rparr>),
      UpdateWorkItemSchema = (\<lambda>raw. case numberArg raw ''workItemId'' of
          None \<Rightarrow> Inl ''Required''
        | Some n \<Rightarrow> Inr \<lparr>ua_workItemId = n, ua_areaPath = stringArg raw ''areaPath'',
            ua_others = []\<rparr>),
      ManageWorkItemLinkSchema = (\<lambda>raw.
          case (numberArg raw ''sourceWorkItemId'', numberArg raw ''targetWorkItemId'') of
            (Some a, Some b) \<Rightarrow> Inr \<lparr>ma_projectId = stringArg raw ''projectId'',
               ma_sourceWorkItemId = a, ma_targetWorkItemId = b, ma_others = []\<rparr>
          | _ \<Rightarrow> Inl ''Required'')\<rparr>"

definition exampleConfig :: "string option \<Rightarrow> AzureDevOpsConfig" where
  "exampleConfig boards =
     \<lparr>organizationUrl = ''https://dev.azure.com/org'', authMethod = None,
      personalAccessToken = None, configDefaultProject = None, apiVersion = None,
      allowedTeamBoards = boards\<rparr>"

definition emptyState :: state where
  "emptyState = \<lparr>teamCache = [], calls = []\<rparr>"

definition exampleCreate :: "other_fields \<Rightarrow> CallToolRequest" where
  "exampleCreate extra =
     \<lparr>req_name = ''create_work_item'',
      req_arguments = (''workItemType'', FString ''Task'') # extra\<rparr>"

definition exampleUpdate :: "int \<Rightarrow> other_fields \<Rightarrow> CallToolRequest" where
  "exampleUpdate n extra =
     \<lparr>req_name = ''update_work_item'', req_arguments = (''workItemId'', FNumber n) # extra\<rparr>"

definition exampleLink :: "int \<Rightarrow> int \<Rightarrow> CallToolRequest" where
  "exampleLink a b =
     \<lparr>req_name = ''manage_work_item_link'',
      req_arguments = [(''sourceWorkItemId'', FNumber a), (''targetWorkItemId'', FNumber b)]\<rparr>"

definition exampleList :: CallToolRequest where
  "exampleList = \<lparr>req_name = ''list_work_items'', req_arguments = []\<rparr>"

definition warmState :: state where
  "warmState = \<lparr>teamCache = [(''ProjectX'', [(''alpha'', ''t-alpha'')])], calls = []\<rparr>"

section \<open>Vocabulary of the properties\<close>

text \<open>What the cache holds for a project: the team ids, and the id under a given name.\<close>

definition cachedTeamIds :: "(string jsobj) jsobj \<Rightarrow> string \<Rightarrow> string set" where
  "cachedTeamIds cache projectId =
     (case obj_get projectId cache of None \<Rightarrow> {} | Some entry \<Rightarrow> snd ` set entry)"

definition cachedId :: "(string jsobj) jsobj \<Rightarrow> string \<Rightarrow> string \<Rightarrow> string option" where
  "cachedId cache projectId teamName =
     (case obj_get projectId cache of None \<Rightarrow> None | Some entry \<Rightarrow> obj_get teamName entry)"

text \<open>
  Two characters differ at most in letter case when they are equal or are the upper-case
  and the lower-case form of one letter; two strings, when they do so position by position.
\<close>

definition caseVariant :: "char \<Rightarrow> char \<Rightarrow> bool" where
  "caseVariant c d =
     (c = d \<or> (c, d) \<in> set (zip upperLetters lowerLetters)
            \<or> (d, c) \<in> set (zip upperLetters lowerLetters))"

definition sameUpToCase :: "string \<Rightarrow> string \<Rightarrow> bool" where
  "sameUpToCase a b = list_all2 caseVariant a b"

text \<open>
  Upper-casing (\<^verbatim>\<open>String.prototype.toUpperCase\<close>) on the characters of the model: a small
  letter goes to its capital letter, the sharp s \<^verbatim>\<open>U+00DF\<close> goes to the two letters
  \<^verbatim>\<open>SS\<close>, and every other character is its own upper-case form. The upper-case forms of
  the micro sign \<^verbatim>\<open>U+00B5\<close> and of the small y with diaeresis \<^verbatim>\<open>U+00FF\<close> are characters
  above \<^verbatim>\<open>U+00FF\<close>; a string that holds one of them has no upper-case form in the model.
\<close>

definition upperChar :: "char \<Rightarrow> string option" where
  "upperChar c =
     (if c = CHR 0xDF then Some ''SS''
      else if c = CHR 0xB5 \<or> c = CHR 0xFF then None
      else (case map_of (zip lowerLetters upperLetters) c of
              None \<Rightarrow> Some [c]
            | Some u \<Rightarrow> Some [u]))"

fun toUpperCase :: "string \<Rightarrow> string option" where
  "toUpperCase [] = Some []"
| "toUpperCase (c # cs) =
     (case upperChar c of
        None \<Rightarrow> None
      | Some u \<Rightarrow> (case toUpperCase cs of None \<Rightarrow> None | Some r \<Rightarrow> Some (u @ r)))"

text \<open>The calls that change a work item.\<close>

fun isMutation :: "call \<Rightarrow> bool" where
  "isMutation (Call_createWorkItem p t a others) = True"
| "isMutation (Call_updateWorkItem n a others) = True"
| "isMutation (Call_manageWorkItemLink p a b others) = True"
| "isMutation c = False"

text \<open>Both endpoints of a link pass \<open>fetchAndValidateWorkItem\<close>, the source first.\<close>

definition endpointsValidated :: "AzureDevOpsConfig \<Rightarrow> connection \<Rightarrow> string \<Rightarrow> int \<Rightarrow> int
    \<Rightarrow> state \<Rightarrow> bool" where
  "endpointsValidated config conn projectId source target s =
     (case fetchAndValidateWorkItem config conn projectId source s of
        (Inl e, s1) \<Rightarrow> False
      | (Inr sourceItem, s1) \<Rightarrow>
         (case fetchAndValidateWorkItem config conn projectId target s1 of
            (Inl e, s2) \<Rightarrow> False
          | (Inr targetItem, s2) \<Rightarrow> True))"

text \<open>
  A team is indexed under a lower-case name when it has a non-empty name that lower-cases
  to it and a non-empty id. The teams of a project that match a requested name are those
  indexed under the lower-case form of the name; when several do, the last one of the
  service's list gives the id. A team is shown in messages by its name, or as
  \<^verbatim>\<open>Unknown\<close> when it has none.
\<close>

definition indexedAs :: "string \<Rightarrow> WebApiTeam \<Rightarrow> bool" where
  "indexedAs k t =
     (case (team_name t, team_id t) of
        (Some n, Some i) \<Rightarrow> n \<noteq> [] \<and> i \<noteq> [] \<and> toLowerCase n = k
      | _ \<Rightarrow> False)"

definition matchingTeams :: "WebApiTeam list \<Rightarrow> string \<Rightarrow> WebApiTeam list" where
  "matchingTeams allTeams requested = filter (indexedAs (toLowerCase requested)) allTeams"

definition matchedId :: "WebApiTeam list \<Rightarrow> string \<Rightarrow> string option" where
  "matchedId allTeams requested =
     (case matchingTeams allTeams requested of [] \<Rightarrow> None | t # ts \<Rightarrow> team_id (last (t # ts)))"

definition displayName :: "WebApiTeam \<Rightarrow> string" where
  "displayName t = (case team_name t of None \<Rightarrow> ''Unknown'' | Some n \<Rightarrow> if n = [] then ''Unknown'' else n)"

section \<open>Properties of dictionary objects\<close>

lemma map_of_obj_replace:
  "map_of (obj_replace k v obj) k' =
     (if k' = k \<and> map_of obj k \<noteq> None then Some v else map_of obj k')"
  by (induction obj) auto

lemma map_of_obj_insert_index:
  "map_of (obj_insert_index k v obj) k' = (if k' = k then Some v else map_of obj k')"
  by (induction obj) auto

lemma obj_get_obj_set:
  "obj_get k' (obj_set k v obj) = (if k' = k then Some v else obj_get k' obj)"
  by (auto simp: obj_get_def obj_set_def map_of_obj_replace map_of_obj_insert_index map_add_def
      split: option.splits)

section \<open>The fail-closed default\<close>

lemma top_level_check_passes:
  assumes "parseAllowedTeamBoards (allowedTeamBoards config) = Some allowed" "allowed \<noteq> []"
  shows "validateTeamBoardAccess config conn projectId None s = (Inr (), s)"
  using assms by (simp add: validateTeamBoardAccess_def)

text \<open>
  Claim C1. When the configured \<^verbatim>\<open>allowedTeamBoards\<close> is absent, blank, or parses to an
  empty list, the handler answers every request (get, list, create, update, link, and any
  other tool name) with the validation error "Board access is restricted", whatever the
  request carries; it returns no data and makes no call to the service (the state is
  unchanged). The two validation functions deny every work item and every team in the
  same way.
\<close>

theorem C1_empty_allow_list_denies:
  assumes "allowedTeamBoards config = None
           \<or> (\<exists>a. allowedTeamBoards config = Some a \<and> trim a = [])
           \<or> parseAllowedTeamBoards (allowedTeamBoards config) = Some []"
  shows "handleWorkItemsRequest imp conn request (Some config) s
           = (Inl (AzureDevOpsValidationError BoardAccessRestricted), s)
         \<and> validateWorkItemTeamAccess config conn projectId workItem s
           = (Inl (AzureDevOpsValidationError BoardAccessRestricted), s)
         \<and> validateTeamBoardAccess config conn projectId teamId s
           = (Inl (AzureDevOpsValidationError BoardAccessRestricted), s)"
proof -
  from assms have "parseAllowedTeamBoards (allowedTeamBoards config) = None
      \<or> parseAllowedTeamBoards (allowedTeamBoards config) = Some []"
    by (auto simp: parseAllowedTeamBoards_def)
  then show ?thesis
    by (auto simp: handleWorkItemsRequest_def validateTeamBoardAccess_def
        validateWorkItemTeamAccess_def)
qed

theorem C1_empty_allow_list_denies_witness:
  "allowedTeamBoards (exampleConfig None) = None
   \<and> trim ''  '' = []
   \<and> parseAllowedTeamBoards (allowedTeamBoards (exampleConfig (Some '' , ''))) = Some []
   \<and> handleWorkItemsRequest exampleImports exampleConnection
        \<lparr>req_name = ''get_work_item'', req_arguments = [(''workItemId'', FNumber 1)]\<rparr>
        (Some (exampleConfig None)) emptyState
        = (Inl (AzureDevOpsValidationError BoardAccessRestricted), emptyState)
   \<and> handleWorkItemsRequest exampleImports exampleConnection
        \<lparr>req_name = ''list_work_items'', req_arguments = [(''teamId'', FString ''t-alpha'')]\<rparr>
        (Some (exampleConfig (Some ''  ''))) emptyState
        = (Inl (AzureDevOpsValidationError BoardAccessRestricted), emptyState)
   \<and> handleWorkItemsRequest exampleImports exampleConnection
        \<lparr>req_name = ''manage_work_item_link'',
         req_arguments = [(''sourceWorkItemId'', FNumber 1), (''targetWorkItemId'', FNumber 2)]\<rparr>
        (Some (exampleConfig (Some '' , ''))) emptyState
        = (Inl (AzureDevOpsValidationError BoardAccessRestricted), emptyState)"
proof -
  have absent: "allowedTeamBoards (exampleConfig None) = None"
    by (simp add: exampleConfig_def)
  have blank: "allowedTeamBoards (exampleConfig (Some ''  '')) = Some ''  '' \<and> trim ''  '' = []"
    by (simp add: exampleConfig_def trim_def isWhiteSpace_def)
  have none_left:
    "parseAllowedTeamBoards (allowedTeamBoards (exampleConfig (Some '' , ''))) = Some []"
    by (simp add: exampleConfig_def parseAllowedTeamBoards_def trim_def isWhiteSpace_def)
  show ?thesis
    using absent blank none_left
      C1_empty_allow_list_denies [of "exampleConfig None" exampleImports exampleConnection
        "\<lparr>req_name = ''get_work_item'', req_arguments = [(''workItemId'', FNumber 1)]\<rparr>"
        emptyState]
      C1_empty_allow_list_denies [of "exampleConfig (Some ''  '')" exampleImports exampleConnection
        "\<lparr>req_name = ''list_work_items'', req_arguments = [(''teamId'', FString ''t-alpha'')]\<rparr>"
        emptyState]
      C1_empty_allow_list_denies [of "exampleConfig (Some '' , '')" exampleImports exampleConnection
        "\<lparr>req_name = ''manage_work_item_link'',
          req_arguments = [(''sourceWorkItemId'', FNumber 1), (''targetWorkItemId'', FNumber 2)]\<rparr>"
        emptyState]
    by simp
qed

section \<open>Facts about the example data\<close>

lemma parse_Alpha:
  "parseAllowedTeamBoards (allowedTeamBoards (exampleConfig (Some ''Alpha''))) = Some [''Alpha'']"
  by (simp add: exampleConfig_def parseAllowedTeamBoards_def trim_def isWhiteSpace_def)

lemma parse_Alpha_Beta:
  "parseAllowedTeamBoards (allowedTeamBoards (exampleConfig (Some ''Alpha,Beta'')))
     = Some [''Alpha'', ''Beta'']"
  by (simp add: exampleConfig_def parseAllowedTeamBoards_def trim_def isWhiteSpace_def)

lemma exampleCreate_parsed:
  "CreateWorkItemSchema exampleImports (req_arguments (exampleCreate [])) =
     Inr \<lparr>ca_projectId = None, ca_workItemType = ''Task'', ca_areaPath = None, ca_others = []\<rparr>"
  by (simp add: exampleCreate_def exampleImports_def stringArg_def)

section \<open>Creating a work item\<close>

text \<open>
  Claim C9. A create request without an explicit area path (none, or the empty string),
  under a configuration: when exactly one team is allowed, the feature function is called
  with the area path made of the project, a backslash and that team, and its answer is the
  handler's answer; when two
  or more teams are allowed, the handler fails with the validation error "Multiple team
  boards are configured" and the state is unchanged, so the create call is never made.
\<close>

theorem C9_create_without_area_path:
  assumes name: "req_name request = ''create_work_item''"
    and args: "CreateWorkItemSchema imp (req_arguments request) = Inr args"
    and noPath: "ca_areaPath args = None \<or> ca_areaPath args = Some []"
    and allowed: "parseAllowedTeamBoards (allowedTeamBoards config) = Some allowed"
    and project: "projectId = (case ca_projectId args of None \<Rightarrow> defaultProject imp | Some p \<Rightarrow> p)"
  shows "(allowed = [team] \<longrightarrow>
            handleWorkItemsRequest imp conn request (Some config) s
              = respond (Call_createWorkItem projectId (ca_workItemType args)
                          (Some (projectId @ [backslash] @ team)) (ca_others args))
                  (createWorkItem conn (calls s) projectId (ca_workItemType args)
                          (Some (projectId @ [backslash] @ team)) (ca_others args)) s)
       \<and> (length allowed \<ge> 2 \<longrightarrow>
            handleWorkItemsRequest imp conn request (Some config) s
              = (Inl (AzureDevOpsValidationError (MultipleTeamBoards allowed projectId)), s))"
proof (intro conjI impI)
  assume one: "allowed = [team]"
  with allowed have top: "validateTeamBoardAccess config conn (defaultProject imp) None s = (Inr (), s)"
    by (simp add: top_level_check_passes)
  show "handleWorkItemsRequest imp conn request (Some config) s
              = respond (Call_createWorkItem projectId (ca_workItemType args)
                          (Some (projectId @ [backslash] @ team)) (ca_others args))
                  (createWorkItem conn (calls s) projectId (ca_workItemType args)
                          (Some (projectId @ [backslash] @ team)) (ca_others args)) s"
    using noPath
    by (auto simp: handleWorkItemsRequest_def top name case_create_work_item_def args allowed one
        project Let_def)
next
  assume many: "length allowed \<ge> 2"
  then have ne: "allowed \<noteq> []" by auto
  with allowed have top: "validateTeamBoardAccess config conn (defaultProject imp) None s = (Inr (), s)"
    by (simp add: top_level_check_passes)
  show "handleWorkItemsRequest imp conn request (Some config) s
              = (Inl (AzureDevOpsValidationError (MultipleTeamBoards allowed projectId)), s)"
    using noPath many
    by (auto simp: handleWorkItemsRequest_def top name case_create_work_item_def args allowed
        project Let_def)
qed

theorem C9_create_without_area_path_witness:
  "handleWorkItemsRequest exampleImports exampleConnection (exampleCreate [])
      (Some (exampleConfig (Some ''Alpha''))) emptyState
     = (Inr (TextOfResult ''{}''),
        \<lparr>teamCache = [],
         calls = [Call_createWorkItem ''ProjectX'' ''Task''
                    (Some (''ProjectX'' @ [backslash] @ ''Alpha'')) []]\<rparr>)
   \<and> handleWorkItemsRequest exampleImports exampleConnection (exampleCreate [])
      (Some (exampleConfig (Some ''Alpha,Beta''))) emptyState
     = (Inl (AzureDevOpsValidationError (MultipleTeamBoards [''Alpha'', ''Beta''] ''ProjectX'')),
        emptyState)"
proof -
  have name: "req_name (exampleCreate []) = ''create_work_item''"
    by (simp add: exampleCreate_def)
  have project: "''ProjectX'' = (case ca_projectId \<lparr>ca_projectId = None, ca_workItemType = ''Task'',
        ca_areaPath = None, ca_others = []\<rparr> of None \<Rightarrow> defaultProject exampleImports | Some p \<Rightarrow> p)"
    by (simp add: exampleImports_def)
  have one: "handleWorkItemsRequest exampleImports exampleConnection (exampleCreate [])
      (Some (exampleConfig (Some ''Alpha''))) emptyState
     = (Inr (TextOfResult ''{}''),
        \<lparr>teamCache = [],
         calls = [Call_createWorkItem ''ProjectX'' ''Task''
                    (Some (''ProjectX'' @ [backslash] @ ''Alpha'')) []]\<rparr>)"
    using C9_create_without_area_path [OF name exampleCreate_parsed _ parse_Alpha project,
        of "''Alpha''" exampleConnection emptyState]
    by (simp add: respond_def performed_def exampleConnection_def emptyState_def)
  have two: "handleWorkItemsRequest exampleImports exampleConnection (exampleCreate [])
      (Some (exampleConfig (Some ''Alpha,Beta''))) emptyState
     = (Inl (AzureDevOpsValidationError (MultipleTeamBoards [''Alpha'', ''Beta''] ''ProjectX'')),
        emptyState)"
    using C9_create_without_area_path [OF name exampleCreate_parsed _ parse_Alpha_Beta project,
        of "''Alpha''" exampleConnection emptyState]
    by simp
  from one two show ?thesis by simp
qed

lemmas string_defs = toLowerCase_def lowerChar_def upperLetters_def lowerLetters_def trim_def
  isWhiteSpace_def startsWith_def substring_def

lemmas object_defs = obj_get_def obj_set_def obj_keys_def isArrayIndex_def isDigit_def
  digitValue_def numericValue_def cache_put_def

lemmas validation_defs = fetchAndValidateWorkItem_def validateWorkItemTeamAccess_def
  validateTeamBoardAccess_def getTeamNameById_def getAllTeams_def getWorkItemTeamId_def
  getWorkItemAreaPath_def extractTeamNameFromAreaPath_def isTeamAllowed_def performed_def

lemmas service_defs = exampleTeams_def exampleItem_def exampleWorkItems_def
  exampleConnection_def emptyState_def

lemma example_fetch_1:
  "fetchAndValidateWorkItem (exampleConfig (Some ''Alpha'')) exampleConnection ''ProjectX'' 1
       emptyState
     = (Inr (exampleItem 1 (Some ''t-alpha'') (Some (''ProjectX'' @ [backslash] @ ''Alpha''))),
        \<lparr>teamCache = [(''ProjectX'', [(''alpha'', ''t-alpha'')])],
         calls = [Call_getWorkItemApi 1, Call_getTeams ''ProjectX'']\<rparr>)"
  using parse_Alpha
  by (simp add: validation_defs string_defs object_defs service_defs)

section \<open>Area paths supplied by the caller\<close>

text \<open>
  Claim C3. Under a configuration with a non-empty allow-list: a create request with an
  explicit (non-empty) area path goes to the feature function with exactly that area path,
  whatever team the path names and whatever the allow-list holds; an update request is
  decided by fetching and validating the item as it is now, and when that succeeds the
  feature function is called with the request's new area path unchanged, whatever team it
  names.
\<close>

theorem C3_no_area_path_check:
  assumes allowed: "parseAllowedTeamBoards (allowedTeamBoards config) = Some allowed"
      "allowed \<noteq> []"
    and cname: "req_name createRequest = ''create_work_item''"
    and cargs: "CreateWorkItemSchema imp (req_arguments createRequest) = Inr cargs"
    and cpath: "ca_areaPath cargs = Some areaPath" "areaPath \<noteq> []"
    and cproject:
      "projectId = (case ca_projectId cargs of None \<Rightarrow> defaultProject imp | Some p \<Rightarrow> p)"
    and uname: "req_name updateRequest = ''update_work_item''"
    and uargs: "UpdateWorkItemSchema imp (req_arguments updateRequest) = Inr uargs"
  shows "handleWorkItemsRequest imp conn createRequest (Some config) s
           = respond (Call_createWorkItem projectId (ca_workItemType cargs) (Some areaPath)
                        (ca_others cargs))
               (createWorkItem conn (calls s) projectId (ca_workItemType cargs) (Some areaPath)
                  (ca_others cargs)) s
       \<and> handleWorkItemsRequest imp conn updateRequest (Some config) s
           = (case fetchAndValidateWorkItem config conn (defaultProject imp)
                     (ua_workItemId uargs) s of
                (Inl e, s') \<Rightarrow> (Inl e, s')
              | (Inr currentItem, s') \<Rightarrow>
                  respond (Call_updateWorkItem (ua_workItemId uargs) (ua_areaPath uargs)
                             (ua_others uargs))
                    (updateWorkItem conn (calls s') (ua_workItemId uargs) (ua_areaPath uargs)
                       (ua_others uargs)) s')"
proof -
  from allowed
  have top: "validateTeamBoardAccess config conn (defaultProject imp) None s = (Inr (), s)"
    by (simp add: top_level_check_passes)
  have c: "handleWorkItemsRequest imp conn createRequest (Some config) s
           = respond (Call_createWorkItem projectId (ca_workItemType cargs) (Some areaPath)
                        (ca_others cargs))
               (createWorkItem conn (calls s) projectId (ca_workItemType cargs) (Some areaPath)
                  (ca_others cargs)) s"
    by (simp add: handleWorkItemsRequest_def top cname case_create_work_item_def cargs cpath
        cproject Let_def)
  have u: "handleWorkItemsRequest imp conn updateRequest (Some config) s
           = (case fetchAndValidateWorkItem config conn (defaultProject imp)
                     (ua_workItemId uargs) s of
                (Inl e, s') \<Rightarrow> (Inl e, s')
              | (Inr currentItem, s') \<Rightarrow>
                  respond (Call_updateWorkItem (ua_workItemId uargs) (ua_areaPath uargs)
                             (ua_others uargs))
                    (updateWorkItem conn (calls s') (ua_workItemId uargs) (ua_areaPath uargs)
                       (ua_others uargs)) s')"
    by (simp add: handleWorkItemsRequest_def top uname case_update_work_item_def uargs
        split: prod.splits sum.splits)
  from c u show ?thesis by simp
qed

theorem C3_no_area_path_check_witness:
  "handleWorkItemsRequest exampleImports exampleConnection
      (exampleCreate [(''areaPath'', FString (''ProjectX'' @ [backslash] @ ''Gamma''))])
      (Some (exampleConfig (Some ''Alpha''))) emptyState
     = (Inr (TextOfResult ''{}''),
        \<lparr>teamCache = [],
         calls = [Call_createWorkItem ''ProjectX'' ''Task''
                    (Some (''ProjectX'' @ [backslash] @ ''Gamma'')) []]\<rparr>)
   \<and> handleWorkItemsRequest exampleImports exampleConnection
      (exampleUpdate 1 [(''areaPath'', FString (''ProjectX'' @ [backslash] @ ''Gamma''))])
      (Some (exampleConfig (Some ''Alpha''))) emptyState
     = (Inr (TextOfResult ''{}''),
        \<lparr>teamCache = [(''ProjectX'', [(''alpha'', ''t-alpha'')])],
         calls = [Call_getWorkItemApi 1, Call_getTeams ''ProjectX'',
                  Call_updateWorkItem 1 (Some (''ProjectX'' @ [backslash] @ ''Gamma'')) []]\<rparr>)"
proof -
  let ?gamma = "''ProjectX'' @ [backslash] @ ''Gamma''"
  let ?cargs = "\<lparr>ca_projectId = None, ca_workItemType = ''Task'',
      ca_areaPath = Some ?gamma, ca_others = []\<rparr>"
  let ?uargs = "\<lparr>ua_workItemId = 1, ua_areaPath = Some ?gamma, ua_others = []\<rparr>"
  have cname: "req_name (exampleCreate [(''areaPath'', FString ?gamma)]) = ''create_work_item''"
    by (simp add: exampleCreate_def)
  have cargs: "CreateWorkItemSchema exampleImports
      (req_arguments (exampleCreate [(''areaPath'', FString ?gamma)])) = Inr ?cargs"
    by (simp add: exampleCreate_def exampleImports_def stringArg_def)
  have cpath: "ca_areaPath ?cargs = Some ?gamma" "?gamma \<noteq> []"
    by simp_all
  have cproject: "''ProjectX'' =
      (case ca_projectId ?cargs of None \<Rightarrow> defaultProject exampleImports | Some p \<Rightarrow> p)"
    by (simp add: exampleImports_def)
  have uname: "req_name (exampleUpdate 1 [(''areaPath'', FString ?gamma)]) = ''update_work_item''"
    by (simp add: exampleUpdate_def)
  have uargs: "UpdateWorkItemSchema exampleImports
      (req_arguments (exampleUpdate 1 [(''areaPath'', FString ?gamma)])) = Inr ?uargs"
    by (simp add: exampleUpdate_def exampleImports_def stringArg_def numberArg_def)
  have project: "defaultProject exampleImports = ''ProjectX''"
    by (simp add: exampleImports_def)
  show ?thesis
    using C3_no_area_path_check [OF parse_Alpha _ cname cargs cpath cproject uname uargs,
        of exampleConnection emptyState] example_fetch_1
    by (simp add: project respond_def performed_def exampleConnection_def emptyState_def)
qed

section \<open>Area-path decomposition\<close>

lemma split_str_no_separator: "sep \<notin> set s \<Longrightarrow> split_str sep s = [s]"
  by (induction s) auto

lemma not_startsWith_longer: "\<not> startsWith p (p @ [c])"
  by (simp add: startsWith_def)

lemma extract_project_alone:
  assumes "p \<noteq> []" "backslash \<notin> set p"
  shows "extractTeamNameFromAreaPath p p = Some p"
  using assms
  by (simp add: extractTeamNameFromAreaPath_def not_startsWith_longer split_str_no_separator)

text \<open>
  Claim C2, as the code has it. For a work item without \<^verbatim>\<open>System.TeamId\<close> whose
  \<^verbatim>\<open>System.AreaPath\<close> is the project name alone (a name without a backslash), the
  decomposition does not yield \<^verbatim>\<open>null\<close>: the prefix (the project name and a backslash) is not there to
  strip,
  so the first segment is the project name itself, and that is the team name. The decision
  is then the membership test on the project name: allowed when the allow-list holds it
  (in any letter case), otherwise denied with the "not in the allowed list" message.
\<close>

theorem C2_area_path_equal_to_project:
  assumes noTeamId: "getWorkItemTeamId workItem = None"
    and areaPath: "getWorkItemAreaPath workItem = Some projectId"
    and plain: "backslash \<notin> set projectId"
    and allowed: "parseAllowedTeamBoards (allowedTeamBoards config) = Some allowed"
      "allowed \<noteq> []"
  shows "extractTeamNameFromAreaPath projectId projectId = Some projectId
       \<and> validateWorkItemTeamAccess config conn projectId workItem s
           = (if isTeamAllowed (Some allowed) projectId then (Inr (), s)
              else (Inl (AzureDevOpsValidationError
                           (WorkItemAccessDenied (wi_id workItem) projectId allowed)), s))"
proof -
  from areaPath have "projectId \<noteq> []"
    by (auto simp: getWorkItemAreaPath_def split: option.splits field_value.splits if_splits)
  with plain have team: "extractTeamNameFromAreaPath projectId projectId = Some projectId"
    by (simp add: extract_project_alone)
  then show ?thesis
    using noTeamId areaPath allowed by (simp add: validateWorkItemTeamAccess_def)
qed

theorem C2_area_path_equal_to_project_witness:
  "getWorkItemTeamId (exampleItem 3 None (Some ''ProjectX'')) = None
   \<and> getWorkItemAreaPath (exampleItem 3 None (Some ''ProjectX'')) = Some ''ProjectX''
   \<and> backslash \<notin> set ''ProjectX''
   \<and> extractTeamNameFromAreaPath ''ProjectX'' ''ProjectX'' = Some ''ProjectX''
   \<and> validateWorkItemTeamAccess (exampleConfig (Some ''Alpha'')) exampleConnection ''ProjectX''
         (exampleItem 3 None (Some ''ProjectX'')) emptyState
       = (Inl (AzureDevOpsValidationError
                 (WorkItemAccessDenied (Some 3) ''ProjectX'' [''Alpha''])), emptyState)"
proof -
  have noTeamId: "getWorkItemTeamId (exampleItem 3 None (Some ''ProjectX'')) = None"
    by (simp add: getWorkItemTeamId_def exampleItem_def)
  have areaPath: "getWorkItemAreaPath (exampleItem 3 None (Some ''ProjectX'')) = Some ''ProjectX''"
    by (simp add: getWorkItemAreaPath_def exampleItem_def)
  have plain: "backslash \<notin> set ''ProjectX''"
    by (simp add: backslash_def)
  have notListed: "\<not> isTeamAllowed (Some [''Alpha'']) ''ProjectX''"
    by (simp add: isTeamAllowed_def string_defs)
  have item: "wi_id (exampleItem 3 None (Some ''ProjectX'')) = Some 3"
    by (simp add: exampleItem_def)
  show ?thesis
    using C2_area_path_equal_to_project [OF noTeamId areaPath plain parse_Alpha,
        of exampleConnection emptyState] noTeamId areaPath plain notListed item
    by simp
qed

text \<open>
  The claim as stated fails: for the item in the root area of \<^verbatim>\<open>ProjectX\<close> the
  decomposition yields \<^verbatim>\<open>ProjectX\<close>, the denial under the allow-list \<^verbatim>\<open>Alpha\<close> is the
  allow-list mismatch, and under the allow-list \<^verbatim>\<open>Alpha,projectx\<close> the item is allowed.
\<close>

theorem C2_counterexample:
  "getWorkItemTeamId (exampleItem 3 None (Some ''ProjectX'')) = None
   \<and> getWorkItemAreaPath (exampleItem 3 None (Some ''ProjectX'')) = Some ''ProjectX''
   \<and> extractTeamNameFromAreaPath ''ProjectX'' ''ProjectX'' = Some ''ProjectX''
   \<and> validateWorkItemTeamAccess (exampleConfig (Some ''Alpha'')) exampleConnection ''ProjectX''
         (exampleItem 3 None (Some ''ProjectX'')) emptyState
       = (Inl (AzureDevOpsValidationError
                 (WorkItemAccessDenied (Some 3) ''ProjectX'' [''Alpha''])), emptyState)
   \<and> validateWorkItemTeamAccess (exampleConfig (Some ''Alpha,projectx'')) exampleConnection
         ''ProjectX'' (exampleItem 3 None (Some ''ProjectX'')) emptyState
       = (Inr (), emptyState)"
  by (simp add: validation_defs string_defs parseAllowedTeamBoards_def exampleConfig_def
      exampleItem_def backslash_def)

section \<open>Resolving a team id\<close>

lemma find_by_id:
  "teamId \<in> snd ` set entry \<Longrightarrow>
     \<exists>name. find (\<lambda>(name, i). i = teamId) entry = Some (name, teamId)"
  by (induction entry) auto

lemma find_by_id_none:
  "teamId \<notin> snd ` set entry \<Longrightarrow> find (\<lambda>(name, i). i = teamId) entry = None"
  by (induction entry) auto

lemma obj_get_empty: "obj_get k [] = None"
  by (simp add: obj_get_def)

lemma cachedId_cache_put:
  "cachedId (cache_put projectId name teamId cache) p n =
     (if p = projectId \<and> n = name then Some teamId else cachedId cache p n)"
  by (auto simp: cachedId_def cache_put_def obj_get_obj_set obj_get_empty split: option.splits)

text \<open>
  Claim C5, as the code has it. When the team id is not in the project's cache entry, the
  resolver asks the service once for the full team list of the project, finds the team
  with that id and, when it has a name, returns the name and stores that one team (its
  lower-case name with its id) in the project's cache entry. Every other cache slot, of
  this project and of any other, is as it was; the other fetched teams are not cached.
\<close>

theorem C5_cache_miss_caches_one_team:
  assumes miss: "teamId \<notin> cachedTeamIds (teamCache s) projectId"
    and fetched: "api_getTeams conn (calls s) projectId = Inr teams"
    and found: "find (\<lambda>t. team_id t = Some teamId) teams = Some team"
    and named: "team_name team = Some teamName" "teamName \<noteq> []" "teamId \<noteq> []"
  shows "\<exists>s'. getTeamNameById conn projectId teamId s = (Inr (Some teamName), s')
           \<and> calls s' = calls s @ [Call_getTeams projectId]
           \<and> (\<forall>p n. cachedId (teamCache s') p n =
                  (if p = projectId \<and> n = toLowerCase teamName then Some teamId
                   else cachedId (teamCache s) p n))"
proof -
  have lookup: "(case obj_get projectId (teamCache s) of None \<Rightarrow> None
                 | Some entry \<Rightarrow> find (\<lambda>(name, i). i = teamId) entry) = None"
    using miss by (auto simp: cachedTeamIds_def find_by_id_none split: option.splits)
  from found have tid: "team_id team = Some teamId"
    by (auto simp: find_Some_iff)
  have run: "getTeamNameById conn projectId teamId s
      = (Inr (Some teamName),
         (performed (Call_getTeams projectId) s)\<lparr>teamCache :=
            cache_put projectId (toLowerCase teamName) teamId
              (teamCache (performed (Call_getTeams projectId) s))\<rparr>)"
    by (simp add: getTeamNameById_def lookup getAllTeams_def fetched found named tid)
  show ?thesis
    unfolding run by (simp add: performed_def cachedId_cache_put)
qed

theorem C5_cache_miss_caches_one_team_witness:
  "''t-alpha'' \<notin> cachedTeamIds (teamCache emptyState) ''ProjectX''
   \<and> api_getTeams exampleConnection (calls emptyState) ''ProjectX'' = Inr exampleTeams
   \<and> find (\<lambda>t. team_id t = Some ''t-alpha'') exampleTeams
       = Some \<lparr>team_id = Some ''t-alpha'', team_name = Some ''Alpha''\<rparr>
   \<and> (\<exists>s'. getTeamNameById exampleConnection ''ProjectX'' ''t-alpha'' emptyState
              = (Inr (Some ''Alpha''), s')
           \<and> calls s' = calls emptyState @ [Call_getTeams ''ProjectX'']
           \<and> (\<forall>p n. cachedId (teamCache s') p n =
                  (if p = ''ProjectX'' \<and> n = toLowerCase ''Alpha'' then Some ''t-alpha''
                   else cachedId (teamCache emptyState) p n)))"
proof -
  have miss: "''t-alpha'' \<notin> cachedTeamIds (teamCache emptyState) ''ProjectX''"
    by (simp add: cachedTeamIds_def emptyState_def obj_get_def)
  have fetched: "api_getTeams exampleConnection (calls emptyState) ''ProjectX'' = Inr exampleTeams"
    by (simp add: exampleConnection_def)
  have found: "find (\<lambda>t. team_id t = Some ''t-alpha'') exampleTeams
       = Some \<lparr>team_id = Some ''t-alpha'', team_name = Some ''Alpha''\<rparr>"
    by (simp add: exampleTeams_def)
  have named: "team_name \<lparr>team_id = Some ''t-alpha'', team_name = Some ''Alpha''\<rparr> = Some ''Alpha''"
      "''Alpha'' \<noteq> []" "''t-alpha'' \<noteq> []"
    by simp_all
  from miss fetched found C5_cache_miss_caches_one_team [OF miss fetched found named]
  show ?thesis by blast
qed

text \<open>
  The claim as stated fails: the service returns Alpha and Beta, the resolver is asked for
  Alpha's id on an empty cache, and afterwards the cache holds Alpha only.
\<close>

theorem C5_counterexample:
  "api_getTeams exampleConnection (calls emptyState) ''ProjectX'' = Inr exampleTeams
   \<and> exampleTeams ! 1 = \<lparr>team_id = Some ''t-beta'', team_name = Some ''Beta''\<rparr>
   \<and> getTeamNameById exampleConnection ''ProjectX'' ''t-alpha'' emptyState
       = (Inr (Some ''Alpha''),
          \<lparr>teamCache = [(''ProjectX'', [(''alpha'', ''t-alpha'')])],
           calls = [Call_getTeams ''ProjectX'']\<rparr>)
   \<and> cachedId [(''ProjectX'', [(''alpha'', ''t-alpha'')])] ''ProjectX'' ''beta'' = None"
  by (simp add: getTeamNameById_def getAllTeams_def performed_def string_defs object_defs
      service_defs cachedId_def)

text \<open>
  Claim C6. When the project's cache entry already holds the team id, resolving it returns
  a name and leaves the state as it was, so resolving it again returns the same name; the
  call log is unchanged after both, which means no request went to the service.
\<close>

theorem C6_cached_resolution_is_idempotent:
  assumes "teamId \<in> cachedTeamIds (teamCache s) projectId"
  shows "\<exists>name. getTeamNameById conn projectId teamId s = (Inr (Some name), s)
           \<and> getTeamNameById conn projectId teamId (snd (getTeamNameById conn projectId teamId s))
               = (Inr (Some name), s)
           \<and> calls (snd (getTeamNameById conn projectId teamId
                            (snd (getTeamNameById conn projectId teamId s)))) = calls s"
proof -
  from assms obtain entry where entry: "obj_get projectId (teamCache s) = Some entry"
      and member: "teamId \<in> snd ` set entry"
    by (auto simp: cachedTeamIds_def split: option.splits)
  from find_by_id [OF member]
  obtain name where f: "find (\<lambda>(name, i). i = teamId) entry = Some (name, teamId)" ..
  have first: "getTeamNameById conn projectId teamId s = (Inr (Some name), s)"
    by (simp add: getTeamNameById_def entry f)
  have "getTeamNameById conn projectId teamId s = (Inr (Some name), s)
           \<and> getTeamNameById conn projectId teamId (snd (getTeamNameById conn projectId teamId s))
               = (Inr (Some name), s)
           \<and> calls (snd (getTeamNameById conn projectId teamId
                            (snd (getTeamNameById conn projectId teamId s)))) = calls s"
    by (simp add: first)
  then show ?thesis ..
qed

theorem C6_cached_resolution_is_idempotent_witness:
  "''t-alpha'' \<in> cachedTeamIds (teamCache warmState) ''ProjectX''
   \<and> (\<exists>name. getTeamNameById exampleConnection ''ProjectX'' ''t-alpha'' warmState
                = (Inr (Some name), warmState)
           \<and> getTeamNameById exampleConnection ''ProjectX'' ''t-alpha''
                (snd (getTeamNameById exampleConnection ''ProjectX'' ''t-alpha'' warmState))
               = (Inr (Some name), warmState)
           \<and> calls (snd (getTeamNameById exampleConnection ''ProjectX'' ''t-alpha''
                  (snd (getTeamNameById exampleConnection ''ProjectX'' ''t-alpha'' warmState))))
               = calls warmState)"
proof -
  have cached: "''t-alpha'' \<in> cachedTeamIds (teamCache warmState) ''ProjectX''"
    by (simp add: cachedTeamIds_def warmState_def obj_get_def)
  from cached C6_cached_resolution_is_idempotent [OF cached, of exampleConnection]
  show ?thesis by blast
qed

section \<open>Membership in the allow-list\<close>

lemma lowerChar_pair:
  "(u, l) \<in> set (zip upperLetters lowerLetters) \<Longrightarrow> lowerChar u = l \<and> lowerChar l = l"
  apply (simp add: upperLetters_def lowerLetters_def)
  apply (elim disjE conjE)
  apply (simp_all add: lowerChar_def upperLetters_def lowerLetters_def)
  done

lemma lowerChar_caseVariant: "caseVariant c d \<Longrightarrow> lowerChar c = lowerChar d"
  unfolding caseVariant_def
  using lowerChar_pair [of c d] lowerChar_pair [of d c]
  by auto

lemma toLowerCase_sameUpToCase:
  assumes "sameUpToCase a b"
  shows "toLowerCase a = toLowerCase b"
proof -
  from assms have "list_all2 caseVariant a b" by (simp add: sameUpToCase_def)
  then have "map lowerChar a = map lowerChar b"
    by (induction rule: list_all2_induct) (simp_all add: lowerChar_caseVariant)
  then show ?thesis by (simp add: toLowerCase_def)
qed

lemma list_ex_sameUpToCase:
  assumes "list_all2 sameUpToCase xs ys" and t: "toLowerCase t = toLowerCase t'"
  shows "list_ex (\<lambda>a. toLowerCase a = toLowerCase t) xs
       = list_ex (\<lambda>a. toLowerCase a = toLowerCase t') ys"
  using assms(1)
  by (induction rule: list_all2_induct) (simp_all add: toLowerCase_sameUpToCase t)

text \<open>
  Claim C7, as the code has it. The membership test compares the lower-case forms of the
  allow-list entry and of the team name. Its answer therefore does not change when
  allow-list entries, the team name, or both are replaced by strings that differ from them
  only by exchanging letters with their other-case form, for the letters that have a
  one-letter form in either case (\<^verbatim>\<open>A-Z\<close> with \<^verbatim>\<open>a-z\<close>, and the accented capital letters
  with their small letters); for instance \<^verbatim>\<open>Team Alpha\<close> is allowed by the entry
  \<^verbatim>\<open>team alpha\<close>.
\<close>

theorem C7_membership_ignores_letter_case:
  assumes lists: "rel_option (list_all2 sameUpToCase) allowed allowed'"
    and names: "sameUpToCase teamName teamName'"
  shows "isTeamAllowed allowed teamName = isTeamAllowed allowed' teamName'"
proof (cases allowed)
  case None
  with lists have "allowed' = None" by (cases allowed') simp_all
  with None show ?thesis by (simp add: isTeamAllowed_def)
next
  case (Some xs)
  with lists obtain ys where ys: "allowed' = Some ys" and rel: "list_all2 sameUpToCase xs ys"
    by (cases allowed') simp_all
  from rel have len: "length xs = length ys" by (rule list_all2_lengthD)
  have "list_ex (\<lambda>a. toLowerCase a = toLowerCase teamName) xs
       = list_ex (\<lambda>a. toLowerCase a = toLowerCase teamName') ys"
    using rel toLowerCase_sameUpToCase [OF names] by (rule list_ex_sameUpToCase)
  with Some ys len show ?thesis by (simp add: isTeamAllowed_def)
qed

theorem C7_membership_ignores_letter_case_witness:
  "rel_option (list_all2 sameUpToCase)
      (Some [''Team Alpha'', [CHR 0xC9] @ ''quipe''])
      (Some [''team alpha'', [CHR 0xE9] @ ''quipe''])
   \<and> sameUpToCase ''Team Alpha'' ''TEAM alpha''
   \<and> sameUpToCase ([CHR 0xE9] @ ''quipe'') ([CHR 0xC9] @ ''QUIPE'')
   \<and> isTeamAllowed (Some [''Team Alpha'', [CHR 0xC9] @ ''quipe'']) ''Team Alpha''
   \<and> isTeamAllowed (Some [''team alpha'', [CHR 0xE9] @ ''quipe'']) ''TEAM alpha''
   \<and> isTeamAllowed (Some [''Team Alpha'', [CHR 0xC9] @ ''quipe'']) ([CHR 0xE9] @ ''quipe'')
   \<and> isTeamAllowed (Some [''team alpha'', [CHR 0xE9] @ ''quipe'']) ([CHR 0xC9] @ ''QUIPE'')"
proof -
  have lists: "rel_option (list_all2 sameUpToCase)
      (Some [''Team Alpha'', [CHR 0xC9] @ ''quipe''])
      (Some [''team alpha'', [CHR 0xE9] @ ''quipe''])"
    by (simp add: sameUpToCase_def caseVariant_def upperLetters_def lowerLetters_def)
  have names: "sameUpToCase ''Team Alpha'' ''TEAM alpha''"
      "sameUpToCase ([CHR 0xE9] @ ''quipe'') ([CHR 0xC9] @ ''QUIPE'')"
    by (simp_all add: sameUpToCase_def caseVariant_def upperLetters_def lowerLetters_def)
  have same: "isTeamAllowed (Some [''Team Alpha'', [CHR 0xC9] @ ''quipe'']) ''Team Alpha''"
    by (simp add: isTeamAllowed_def)
  have lower: "toLowerCase ([CHR 0xC9] @ ''quipe'') = toLowerCase ([CHR 0xE9] @ ''quipe'')"
    by (simp add: string_defs)
  have accent: "isTeamAllowed (Some [''Team Alpha'', [CHR 0xC9] @ ''quipe''])
      ([CHR 0xE9] @ ''quipe'')"
    using lower by (simp add: isTeamAllowed_def)
  from lists names same accent
    C7_membership_ignores_letter_case [OF lists names(1)]
    C7_membership_ignores_letter_case [OF lists names(2)]
  show ?thesis by simp
qed

text \<open>
  The claim as stated fails, since not every change of letter case keeps the lower-case
  form: the team name \<^verbatim>\<open>Stra\<close>, sharp s, \<^verbatim>\<open>e\<close> is allowed by the entry of the same
  spelling, and its upper-case form \<^verbatim>\<open>STRASSE\<close> is denied by that entry.
\<close>

theorem C7_counterexample:
  "toUpperCase (''Stra'' @ [CHR 0xDF] @ ''e'') = Some ''STRASSE''
   \<and> isTeamAllowed (Some [''Stra'' @ [CHR 0xDF] @ ''e'']) (''Stra'' @ [CHR 0xDF] @ ''e'')
   \<and> \<not> isTeamAllowed (Some [''Stra'' @ [CHR 0xDF] @ ''e'']) ''STRASSE''"
  by (simp add: upperChar_def isTeamAllowed_def string_defs)

section \<open>Linking two work items\<close>

lemma getTeamNameById_calls:
  assumes "getTeamNameById conn projectId teamId s = (r, s')"
  shows "calls s' = calls s \<or> calls s' = calls s @ [Call_getTeams projectId]"
  using assms
  by (auto simp: getTeamNameById_def getAllTeams_def performed_def
      split: option.splits prod.splits sum.splits if_splits)

lemma validateWorkItemTeamAccess_calls:
  assumes "validateWorkItemTeamAccess config conn projectId workItem s = (r, s')"
  shows "calls s' = calls s \<or> calls s' = calls s @ [Call_getTeams projectId]"
proof (cases "getWorkItemTeamId workItem")
  case None
  with assms show ?thesis
    by (auto simp: validateWorkItemTeamAccess_def split: option.splits if_splits)
next
  case (Some tid)
  obtain r1 s1 where g: "getTeamNameById conn projectId tid s = (r1, s1)"
    by (cases "getTeamNameById conn projectId tid s")
  from getTeamNameById_calls [OF g]
  have c: "calls s1 = calls s \<or> calls s1 = calls s @ [Call_getTeams projectId]" .
  from assms Some g have "s' = s \<or> s' = s1"
    by (auto simp: validateWorkItemTeamAccess_def split: option.splits if_splits sum.splits)
  with c show ?thesis by auto
qed

lemma fetchAndValidateWorkItem_calls:
  assumes "fetchAndValidateWorkItem config conn projectId n s = (r, s')"
  shows "\<exists>reads. calls s' = calls s @ Call_getWorkItemApi n # reads \<and> \<not> list_ex isMutation reads"
proof (cases "api_getWorkItem conn (calls s) n")
  case (Inl cause)
  with assms show ?thesis by (auto simp: fetchAndValidateWorkItem_def performed_def)
next
  case (Inr found)
  show ?thesis
  proof (cases found)
    case None
    with Inr assms show ?thesis by (auto simp: fetchAndValidateWorkItem_def performed_def)
  next
    case (Some workItem)
    obtain r1 s1 where v: "validateWorkItemTeamAccess config conn projectId workItem
        (performed (Call_getWorkItemApi n) s) = (r1, s1)"
      by (cases "validateWorkItemTeamAccess config conn projectId workItem
        (performed (Call_getWorkItemApi n) s)")
    from validateWorkItemTeamAccess_calls [OF v]
    have "calls s1 = calls s @ [Call_getWorkItemApi n]
        \<or> calls s1 = calls s @ [Call_getWorkItemApi n] @ [Call_getTeams projectId]"
      by (simp add: performed_def)
    moreover from assms Inr Some v have "s' = s1"
      by (auto simp: fetchAndValidateWorkItem_def split: sum.splits)
    ultimately show ?thesis by auto
  qed
qed

lemma fetch_denied_without_allow_list:
  assumes "parseAllowedTeamBoards (allowedTeamBoards config) = None
      \<or> parseAllowedTeamBoards (allowedTeamBoards config) = Some []"
  shows "\<exists>e s'. fetchAndValidateWorkItem config conn projectId n s = (Inl e, s')"
  using assms
  by (auto simp: fetchAndValidateWorkItem_def validateWorkItemTeamAccess_def
      split: sum.splits option.splits)

text \<open>
  Claim C4. A link request under a configuration. If both endpoints pass
  \<open>fetchAndValidateWorkItem\<close> (the source, then the target in the state the first check
  left), the calls the handler adds to the log are: the fetch of the source, the reads of its
  validation, the fetch of the target, the reads of its validation, and last the link call;
  nothing before the link call changes a work item. If the validation of either endpoint
  raises (or the allow-list is empty), the handler raises and none of the calls it made
  changes a work item: the link call is not reached.
\<close>

theorem C4_link_validates_both_endpoints:
  assumes name: "req_name request = ''manage_work_item_link''"
    and args: "ManageWorkItemLinkSchema imp (req_arguments request) = Inr args"
    and project: "projectId = (case ma_projectId args of None \<Rightarrow> defaultProject imp | Some p \<Rightarrow> p)"
    and run: "handleWorkItemsRequest imp conn request (Some config) s = (r, s')"
  shows "(endpointsValidated config conn projectId (ma_sourceWorkItemId args)
            (ma_targetWorkItemId args) s \<longrightarrow>
          (\<exists>reads1 reads2.
             calls s' = calls s @ Call_getWorkItemApi (ma_sourceWorkItemId args) # reads1
                 @ Call_getWorkItemApi (ma_targetWorkItemId args) # reads2
                 @ [Call_manageWorkItemLink projectId (ma_sourceWorkItemId args)
                      (ma_targetWorkItemId args) (ma_others args)]
             \<and> \<not> list_ex isMutation (reads1 @ reads2)))
       \<and> (\<not> endpointsValidated config conn projectId (ma_sourceWorkItemId args)
              (ma_targetWorkItemId args) s \<longrightarrow>
          (\<exists>e. r = Inl e)
          \<and> (\<exists>new. calls s' = calls s @ new \<and> \<not> list_ex isMutation new))"
proof -
  let ?src = "ma_sourceWorkItemId args" and ?tgt = "ma_targetWorkItemId args"
  obtain r1 s1 where f1: "fetchAndValidateWorkItem config conn projectId ?src s = (r1, s1)"
    by (cases "fetchAndValidateWorkItem config conn projectId ?src s")
  obtain r2 s2 where f2: "fetchAndValidateWorkItem config conn projectId ?tgt s1 = (r2, s2)"
    by (cases "fetchAndValidateWorkItem config conn projectId ?tgt s1")
  from fetchAndValidateWorkItem_calls [OF f1] obtain reads1
    where c1: "calls s1 = calls s @ Call_getWorkItemApi ?src # reads1"
      and m1: "\<not> list_ex isMutation reads1" by blast
  from fetchAndValidateWorkItem_calls [OF f2] obtain reads2
    where c2: "calls s2 = calls s1 @ Call_getWorkItemApi ?tgt # reads2"
      and m2: "\<not> list_ex isMutation reads2" by blast
  show ?thesis
  proof (cases "parseAllowedTeamBoards (allowedTeamBoards config) = None
      \<or> parseAllowedTeamBoards (allowedTeamBoards config) = Some []")
    case True
    then have denied: "handleWorkItemsRequest imp conn request (Some config) s
        = (Inl (AzureDevOpsValidationError BoardAccessRestricted), s)"
      by (auto simp: handleWorkItemsRequest_def validateTeamBoardAccess_def)
    from fetch_denied_without_allow_list [OF True, of conn projectId ?src s]
    have "\<not> endpointsValidated config conn projectId ?src ?tgt s"
      by (auto simp: endpointsValidated_def)
    with denied run show ?thesis by auto
  next
    case False
    then obtain allowed where "parseAllowedTeamBoards (allowedTeamBoards config) = Some allowed"
        "allowed \<noteq> []" by auto
    then have top: "validateTeamBoardAccess config conn (defaultProject imp) None s = (Inr (), s)"
      by (rule top_level_check_passes)
    have h: "handleWorkItemsRequest imp conn request (Some config) s
        = case_manage_work_item_link imp conn request (Some config) s"
      by (simp add: handleWorkItemsRequest_def top name)
    show ?thesis
    proof (cases r1)
      case (Inl e)
      with f1 have "\<not> endpointsValidated config conn projectId ?src ?tgt s"
        by (simp add: endpointsValidated_def)
      moreover from run h f1 Inl have "r = Inl e" "s' = s1"
        by (simp_all add: case_manage_work_item_link_def args project Let_def)
      ultimately show ?thesis using c1 m1 by auto
    next
      case (Inr sourceItem)
      note src = this
      show ?thesis
      proof (cases r2)
        case (Inl e)
        with f1 f2 src have "\<not> endpointsValidated config conn projectId ?src ?tgt s"
          by (simp add: endpointsValidated_def)
        moreover from run h f1 f2 src Inl have "r = Inl e" "s' = s2"
          by (simp_all add: case_manage_work_item_link_def args project Let_def)
        ultimately show ?thesis using c1 m1 c2 m2 by auto
      next
        case (Inr targetItem)
        with f1 f2 src have v: "endpointsValidated config conn projectId ?src ?tgt s"
          by (simp add: endpointsValidated_def)
        from run h f1 f2 src Inr
        have "calls s' = calls s2 @ [Call_manageWorkItemLink projectId ?src ?tgt (ma_others args)]"
          by (auto simp: case_manage_work_item_link_def args project Let_def respond_def
              performed_def split: sum.splits)
        with v c1 m1 c2 m2 show ?thesis by auto
      qed
    qed
  qed
qed

theorem C4_link_validates_both_endpoints_witness:
  "endpointsValidated (exampleConfig (Some ''Alpha,Beta'')) exampleConnection ''ProjectX'' 1 2
      emptyState
   \<and> (\<exists>reads1 reads2.
         calls (snd (handleWorkItemsRequest exampleImports exampleConnection (exampleLink 1 2)
                       (Some (exampleConfig (Some ''Alpha,Beta''))) emptyState))
           = calls emptyState @ Call_getWorkItemApi 1 # reads1 @ Call_getWorkItemApi 2 # reads2
               @ [Call_manageWorkItemLink ''ProjectX'' 1 2 []]
         \<and> \<not> list_ex isMutation (reads1 @ reads2))
   \<and> \<not> endpointsValidated (exampleConfig (Some ''Alpha'')) exampleConnection ''ProjectX'' 1 2
        emptyState
   \<and> (\<exists>e. fst (handleWorkItemsRequest exampleImports exampleConnection (exampleLink 1 2)
                    (Some (exampleConfig (Some ''Alpha''))) emptyState) = Inl e)
   \<and> (\<exists>new. calls (snd (handleWorkItemsRequest exampleImports exampleConnection
                    (exampleLink 1 2) (Some (exampleConfig (Some ''Alpha''))) emptyState))
                = calls emptyState @ new
              \<and> \<not> list_ex isMutation new)"
proof -
  let ?args = "\<lparr>ma_projectId = None, ma_sourceWorkItemId = 1, ma_targetWorkItemId = 2,
      ma_others = []\<rparr>"
  have name: "req_name (exampleLink 1 2) = ''manage_work_item_link''"
    by (simp add: exampleLink_def)
  have args: "ManageWorkItemLinkSchema exampleImports (req_arguments (exampleLink 1 2)) = Inr ?args"
    by (simp add: exampleLink_def exampleImports_def stringArg_def numberArg_def)
  have project: "''ProjectX'' =
      (case ma_projectId ?args of None \<Rightarrow> defaultProject exampleImports | Some p \<Rightarrow> p)"
    by (simp add: exampleImports_def)
  have both: "endpointsValidated (exampleConfig (Some ''Alpha,Beta'')) exampleConnection
      ''ProjectX'' 1 2 emptyState"
    using parse_Alpha_Beta
    by (simp add: endpointsValidated_def validation_defs string_defs object_defs service_defs
        backslash_def)
  have target_denied: "\<not> endpointsValidated (exampleConfig (Some ''Alpha'')) exampleConnection
      ''ProjectX'' 1 2 emptyState"
    using parse_Alpha
    by (simp add: endpointsValidated_def validation_defs string_defs object_defs service_defs
        backslash_def)
  have run: "handleWorkItemsRequest exampleImports exampleConnection (exampleLink 1 2) (Some c) s
      = (fst (handleWorkItemsRequest exampleImports exampleConnection (exampleLink 1 2) (Some c) s),
         snd (handleWorkItemsRequest exampleImports exampleConnection (exampleLink 1 2) (Some c) s))"
    for c s
    by simp
  from C4_link_validates_both_endpoints [OF name args project run,
      of "exampleConfig (Some ''Alpha,Beta'')" emptyState]
    C4_link_validates_both_endpoints [OF name args project run,
      of "exampleConfig (Some ''Alpha'')" emptyState]
    both target_denied
  show ?thesis by simp
qed

section \<open>Resolving the allowed team names\<close>

lemma obj_keys_obj_replace: "map fst (obj_replace k v obj) = map fst obj"
  by (induction obj) auto

lemma set_obj_insert_index: "set (obj_insert_index k v obj) = insert (k, v) (set obj)"
  by (induction obj) (auto split: if_splits)

lemma set_obj_keys_obj_set: "set (obj_keys (obj_set k v obj)) = insert k (set (obj_keys obj))"
proof (cases "map_of obj k")
  case None
  then show ?thesis
    by (simp add: obj_keys_def obj_set_def set_obj_insert_index)
next
  case (Some v')
  then have "(k, v') \<in> set obj" by (rule map_of_SomeD)
  then have "k \<in> fst ` set obj" by force
  with Some show ?thesis
    by (auto simp: obj_keys_def obj_set_def obj_keys_obj_replace)
qed

lemma indexTeam_step:
  "\<exists>tm' c'. indexTeam p (tm, c) t = (tm', c')
     \<and> (\<forall>k. obj_get k tm' = (if indexedAs k t then team_id t else obj_get k tm))"
  by (auto simp: indexTeam_def indexedAs_def obj_get_obj_set split: option.splits)

lemma teamMap_lookup:
  "obj_get k (fst (foldl (indexTeam p) (tm, c) teams)) =
     (case filter (indexedAs k) teams of [] \<Rightarrow> obj_get k tm | t # ts \<Rightarrow> team_id (last (t # ts)))"
proof (induction teams arbitrary: tm c)
  case Nil
  show ?case by simp
next
  case (Cons t teams)
  from indexTeam_step [of p tm c t] obtain tm' c'
    where step: "indexTeam p (tm, c) t = (tm', c')"
      and look: "\<And>k. obj_get k tm' = (if indexedAs k t then team_id t else obj_get k tm)"
    by blast
  have "obj_get k (fst (foldl (indexTeam p) (tm, c) (t # teams)))
      = obj_get k (fst (foldl (indexTeam p) (tm', c') teams))"
    by (simp add: step)
  also have "\<dots> = (case filter (indexedAs k) teams of [] \<Rightarrow> obj_get k tm'
      | t # ts \<Rightarrow> team_id (last (t # ts)))"
    by (rule Cons.IH)
  also have "\<dots> = (case filter (indexedAs k) (t # teams) of [] \<Rightarrow> obj_get k tm
      | t # ts \<Rightarrow> team_id (last (t # ts)))"
    by (cases "filter (indexedAs k) teams") (simp_all add: look)
  finally show ?case .
qed

lemma teamMap_matchedId:
  "obj_get (toLowerCase n) (fst (foldl (indexTeam p) ([], c) allTeams)) = matchedId allTeams n"
  by (simp add: teamMap_lookup matchedId_def matchingTeams_def obj_get_empty split: list.splits)

lemma matchedId_nonempty:
  assumes "matchedId allTeams n = Some i"
  shows "i \<noteq> []"
proof -
  from assms obtain t ts where ms: "matchingTeams allTeams n = t # ts"
      and i: "team_id (last (t # ts)) = Some i"
    by (auto simp: matchedId_def split: list.splits)
  have "last (t # ts) \<in> set (matchingTeams allTeams n)"
    unfolding ms by (rule last_in_set) simp
  then have "indexedAs (toLowerCase n) (last (t # ts))"
    by (simp add: matchingTeams_def)
  with i show ?thesis
    by (auto simp: indexedAs_def split: option.splits)
qed

lemma matchedId_None_iff: "matchedId allTeams n = None \<longleftrightarrow> matchingTeams allTeams n = []"
proof
  assume none: "matchedId allTeams n = None"
  show "matchingTeams allTeams n = []"
  proof (rule ccontr)
    assume "matchingTeams allTeams n \<noteq> []"
    then obtain t ts where ms: "matchingTeams allTeams n = t # ts"
      by (cases "matchingTeams allTeams n") auto
    have "last (t # ts) \<in> set (matchingTeams allTeams n)"
      unfolding ms by (rule last_in_set) simp
    then have "indexedAs (toLowerCase n) (last (t # ts))"
      by (simp add: matchingTeams_def)
    then have "team_id (last (t # ts)) \<noteq> None"
      by (auto simp: indexedAs_def split: option.splits)
    with none ms show False by (simp add: matchedId_def)
  qed
next
  assume "matchingTeams allTeams n = []"
  then show "matchedId allTeams n = None" by (simp add: matchedId_def)
qed

lemma toLowerCase_proto: "toLowerCase ''__proto__'' = ''__proto__''"
  by (simp add: string_defs)

lemma obj_lookup_plain:
  assumes "k \<notin> set objectPrototypeMembers"
  shows "obj_lookup k obj = (case obj_get k obj of None \<Rightarrow> Absent | Some v \<Rightarrow> Own v)"
proof -
  have "''__proto__'' \<in> set objectPrototypeMembers"
    by (simp add: objectPrototypeMembers_def)
  with assms have "k \<noteq> ''__proto__''" by blast
  with assms show ?thesis
    by (simp add: obj_lookup_def obj_get_def split: option.splits)
qed

lemma obj_assign_plain:
  assumes "toLowerCase n \<notin> set objectPrototypeMembers"
  shows "obj_assign n v obj = obj_set n v obj"
proof -
  have "toLowerCase ''__proto__'' \<in> set objectPrototypeMembers"
    by (simp add: toLowerCase_proto objectPrototypeMembers_def)
  with assms have "n \<noteq> ''__proto__''" by blast
  then show ?thesis by (simp add: obj_assign_def)
qed

lemma resolveAllowed_fold:
  assumes "foldl (resolveAllowed tm) (res, nf) names = (res', nf')"
    and plain: "list_all (\<lambda>n. toLowerCase n \<notin> set objectPrototypeMembers) names"
    and ids: "\<And>n i. obj_get (toLowerCase n) tm = Some i \<Longrightarrow> i \<noteq> []"
  shows "nf' = nf @ filter (\<lambda>n. obj_get (toLowerCase n) tm = None) names
       \<and> set (obj_keys res') = set (obj_keys res) \<union> {n \<in> set names. obj_get (toLowerCase n) tm \<noteq> None}
       \<and> (\<forall>k. obj_get k res' =
              (if k \<in> set names \<and> obj_get (toLowerCase k) tm \<noteq> None
               then map_option (\<lambda>i. \<lparr>ref_id = TeamId i\<rparr>) (obj_get (toLowerCase k) tm)
               else obj_get k res))"
  using assms(1,2)
proof (induction names arbitrary: res nf)
  case Nil
  then show ?case by simp
next
  case (Cons n names)
  from Cons.prems(2) have n: "toLowerCase n \<notin> set objectPrototypeMembers"
    and rest: "list_all (\<lambda>n. toLowerCase n \<notin> set objectPrototypeMembers) names"
    by simp_all
  show ?case
  proof (cases "obj_get (toLowerCase n) tm")
    case None
    then have step: "resolveAllowed tm (res, nf) n = (res, nf @ [n])"
      by (simp add: resolveAllowed_def obj_lookup_plain [OF n])
    with Cons.prems have "foldl (resolveAllowed tm) (res, nf @ [n]) names = (res', nf')"
      by simp
    from Cons.IH [OF this rest] None show ?thesis by auto
  next
    case (Some i)
    with ids have "i \<noteq> []" by blast
    with Some
    have step: "resolveAllowed tm (res, nf) n = (obj_set n \<lparr>ref_id = TeamId i\<rparr> res, nf)"
      by (simp add: resolveAllowed_def obj_lookup_plain [OF n] obj_assign_plain [OF n])
    with Cons.prems
    have "foldl (resolveAllowed tm) (obj_set n \<lparr>ref_id = TeamId i\<rparr> res, nf) names = (res', nf')"
      by simp
    from Cons.IH [OF this rest] Some show ?thesis
      by (auto simp: set_obj_keys_obj_set obj_get_obj_set)
  qed
qed

lemma availableTeams_all: "availableTeams allTeams = map displayName allTeams"
proof -
  have "filter (\<lambda>n. n \<noteq> []) (map displayName allTeams) = map displayName allTeams"
    by (induction allTeams) (auto simp: displayName_def split: option.splits)
  then show ?thesis
    by (simp add: availableTeams_def displayName_def [abs_def])
qed

text \<open>
  What \<open>getAllowedTeamIds\<close> does for requested names none of which lower-cases to a member
  of \<^verbatim>\<open>Object.prototype\<close>, once the service has returned the project's teams: if some
  requested name matches no team, the result is one validation error that carries every
  unmatched requested name (all of them, in the order requested) and the display names of
  all teams of the project; if every requested name matches, the result is a mapping whose
  keys are exactly the requested names, each with the id of the team it matches.
\<close>

lemma getAllowedTeamIds_plain_names:
  assumes fetched: "api_getTeams conn (calls s) projectId = Inr allTeams"
    and plain: "list_all (\<lambda>n. toLowerCase n \<notin> set objectPrototypeMembers) names"
  shows "(list_ex (\<lambda>n. matchingTeams allTeams n = []) names \<longrightarrow>
            fst (getAllowedTeamIds conn projectId names s)
              = Inl (AzureDevOpsValidationError
                       (TeamBoardsNotFound projectId
                          (filter (\<lambda>n. matchingTeams allTeams n = []) names)
                          (map displayName allTeams))))
       \<and> (\<not> list_ex (\<lambda>n. matchingTeams allTeams n = []) names \<longrightarrow>
            (\<exists>result. fst (getAllowedTeamIds conn projectId names s) = Inr result
               \<and> set (obj_keys result) = set names
               \<and> list_all (\<lambda>n. obj_get n result
                                = map_option (\<lambda>i. \<lparr>ref_id = TeamId i\<rparr>) (matchedId allTeams n)
                              \<and> matchedId allTeams n \<noteq> None) names))"
proof -
  obtain teamMap cache
    where index: "foldl (indexTeam projectId) ([], teamCache s) allTeams = (teamMap, cache)"
    by (cases "foldl (indexTeam projectId) ([], teamCache s) allTeams")
  obtain result notFound
    where resolve: "foldl (resolveAllowed teamMap) ([], []) names = (result, notFound)"
    by (cases "foldl (resolveAllowed teamMap) ([], []) names")
  have look: "obj_get (toLowerCase n) teamMap = matchedId allTeams n" for n
    using teamMap_matchedId [of n projectId "teamCache s" allTeams] by (simp add: index)
  have ids: "obj_get (toLowerCase n) teamMap = Some i \<Longrightarrow> i \<noteq> []" for n i
    by (simp add: look matchedId_nonempty)
  from resolveAllowed_fold [OF resolve plain ids]
  have nf: "notFound = filter (\<lambda>n. matchingTeams allTeams n = []) names"
    and keys: "set (obj_keys result) = {n \<in> set names. matchingTeams allTeams n \<noteq> []}"
    and vals: "\<And>k. obj_get k result =
              (if k \<in> set names \<and> matchingTeams allTeams k \<noteq> []
               then map_option (\<lambda>i. \<lparr>ref_id = TeamId i\<rparr>) (matchedId allTeams k)
               else None)"
    by (simp_all add: look matchedId_None_iff obj_keys_def obj_get_empty)
  have run: "fst (getAllowedTeamIds conn projectId names s)
      = (if length notFound > 0
         then Inl (AzureDevOpsValidationError
                     (TeamBoardsNotFound projectId notFound (map displayName allTeams)))
         else Inr result)"
    by (simp add: getAllowedTeamIds_def fetched index resolve availableTeams_all)
  have some: "length notFound > 0 \<longleftrightarrow> list_ex (\<lambda>n. matchingTeams allTeams n = []) names"
    unfolding nf by (induction names) auto
  show ?thesis
  proof (intro conjI impI)
    assume "list_ex (\<lambda>n. matchingTeams allTeams n = []) names"
    with some run nf show "fst (getAllowedTeamIds conn projectId names s)
              = Inl (AzureDevOpsValidationError
                       (TeamBoardsNotFound projectId
                          (filter (\<lambda>n. matchingTeams allTeams n = []) names)
                          (map displayName allTeams)))"
      by simp
  next
    assume all: "\<not> list_ex (\<lambda>n. matchingTeams allTeams n = []) names"
    then have matched: "\<And>n. n \<in> set names \<Longrightarrow> matchingTeams allTeams n \<noteq> []"
      by (auto simp: list_ex_iff)
    from all some run have r: "fst (getAllowedTeamIds conn projectId names s) = Inr result"
      by simp
    from keys matched have k: "set (obj_keys result) = set names" by auto
    have v: "list_all (\<lambda>n. obj_get n result
                                = map_option (\<lambda>i. \<lparr>ref_id = TeamId i\<rparr>) (matchedId allTeams n)
                              \<and> matchedId allTeams n \<noteq> None) names"
      using matched by (auto simp: list_all_iff vals matchedId_None_iff)
    from r k v show "\<exists>result. fst (getAllowedTeamIds conn projectId names s) = Inr result
               \<and> set (obj_keys result) = set names
               \<and> list_all (\<lambda>n. obj_get n result
                                = map_option (\<lambda>i. \<lparr>ref_id = TeamId i\<rparr>) (matchedId allTeams n)
                              \<and> matchedId allTeams n \<noteq> None) names"
      by blast
  qed
qed

text \<open>
  Claim C10 on the code. The claim (one validation error naming every requested name that
  matches no team of the project) does not hold for a requested name that is a member of
  \<^verbatim>\<open>Object.prototype\<close>. In the project with the teams Alpha and Beta the names
  \<^verbatim>\<open>constructor\<close> and \<^verbatim>\<open>Alpha\<close> are requested; no team matches \<^verbatim>\<open>constructor\<close>, yet
  \<open>getAllowedTeamIds\<close> raises nothing and returns a mapping with the key \<^verbatim>\<open>constructor\<close>,
  whose id is the inherited member that \<^verbatim>\<open>teamMap['constructor']\<close> read.
\<close>

theorem C10_inherited_member_is_not_reported:
  "api_getTeams exampleConnection (calls emptyState) ''ProjectX'' = Inr exampleTeams
   \<and> matchingTeams exampleTeams ''constructor'' = []
   \<and> getAllowedTeamIds exampleConnection ''ProjectX'' [''constructor'', ''Alpha''] emptyState
       = (Inr [(''constructor'', \<lparr>ref_id = PrototypeMember ''constructor''\<rparr>),
               (''Alpha'', \<lparr>ref_id = TeamId ''t-alpha''\<rparr>)],
          \<lparr>teamCache = [(''ProjectX'', [(''alpha'', ''t-alpha''), (''beta'', ''t-beta'')])],
           calls = [Call_getTeams ''ProjectX'']\<rparr>)"
  by (simp add: getAllowedTeamIds_def indexTeam_def resolveAllowed_def obj_lookup_def
      obj_assign_def objectPrototypeMembers_def matchingTeams_def indexedAs_def performed_def
      string_defs object_defs service_defs)

section \<open>The query for a listing without a team\<close>

lemma resolve_Alpha_Beta:
  assumes "obj_get (toLowerCase ''Alpha'') tm = Some a" "a \<noteq> []"
    and "obj_get (toLowerCase ''Beta'') tm = Some b" "b \<noteq> []"
  shows "foldl (resolveAllowed tm) ([], []) [''Alpha'', ''Beta'']
       = ([(''Alpha'', \<lparr>ref_id = TeamId a\<rparr>), (''Beta'', \<lparr>ref_id = TeamId b\<rparr>)], [])"
proof -
  have lower: "toLowerCase ''Alpha'' = ''alpha''" "toLowerCase ''Beta'' = ''beta''"
    by (simp_all add: string_defs)
  from assms show ?thesis
    by (simp add: lower resolveAllowed_def obj_lookup_def obj_get_def obj_assign_def
        objectPrototypeMembers_def obj_set_def isArrayIndex_def isDigit_def digitValue_def)
qed

text \<open>
  Claim C8. A listing without a team (none, or the empty string) under the allow-list
  \<^verbatim>\<open>Alpha,Beta\<close>, in a project \<open>X\<close> whose team list holds a match for both names:
  the resolved mapping has the keys Alpha and Beta in this order (the order in which the
  object enumerates them, which is the order of the allow-list), and the handler passes to
  the listing function the query that selects the project \<open>X\<close> and, joined by \<^verbatim>\<open>OR\<close>, one
  \<^verbatim>\<open>[System.AreaPath] UNDER\<close> clause per key in that order: first the area of Alpha, then
  the area of Beta. The handler is a function, so the same request gives the same query.
\<close>

theorem C8_query_for_two_allowed_teams:
  assumes name: "req_name request = ''list_work_items''"
    and args: "ListWorkItemsSchema imp (req_arguments request) = Inr args"
    and noTeam: "la_teamId args = None \<or> la_teamId args = Some []"
    and project: "X = (case la_projectId args of None \<Rightarrow> defaultProject imp | Some p \<Rightarrow> p)"
    and allowed: "parseAllowedTeamBoards (allowedTeamBoards config) = Some [''Alpha'', ''Beta'']"
    and fetched: "api_getTeams conn (calls s) X = Inr allTeams"
    and resolvable: "matchingTeams allTeams ''Alpha'' \<noteq> []" "matchingTeams allTeams ''Beta'' \<noteq> []"
    and scoped: "scoped = \<lparr>lo_projectId = X, lo_teamId = None, lo_queryId = None,
        lo_wiql = Some (''SELECT [System.Id] FROM WorkItems WHERE [System.TeamProject] = ''
           @ [quote] @ X @ [quote]
           @ '' AND ([System.AreaPath] UNDER '' @ [quote] @ X @ [backslash] @ ''Alpha'' @ [quote]
           @ '' OR [System.AreaPath] UNDER '' @ [quote] @ X @ [backslash] @ ''Beta'' @ [quote]
           @ '') ORDER BY [System.Id]''),
        lo_top = la_top args, lo_skip = la_skip args\<rparr>"
  shows "\<exists>teamsData s1.
           getAllowedTeamIds conn X [''Alpha'', ''Beta''] s = (Inr teamsData, s1)
         \<and> obj_keys teamsData = [''Alpha'', ''Beta'']
         \<and> calls s1 = calls s @ [Call_getTeams X]
         \<and> handleWorkItemsRequest imp conn request (Some config) s
             = respond (Call_listWorkItems scoped) (listWorkItems conn (calls s1) scoped) s1"
proof -
  obtain teamMap cache where index: "foldl (indexTeam X) ([], teamCache s) allTeams = (teamMap, cache)"
    by (cases "foldl (indexTeam X) ([], teamCache s) allTeams")
  have look: "obj_get (toLowerCase n) teamMap = matchedId allTeams n" for n
    using teamMap_matchedId [of n X "teamCache s" allTeams] by (simp add: index)
  from resolvable obtain a b where a: "matchedId allTeams ''Alpha'' = Some a"
      and b: "matchedId allTeams ''Beta'' = Some b"
    using matchedId_None_iff [of allTeams] by (metis not_Some_eq)
  then have ne: "a \<noteq> []" "b \<noteq> []" by (auto dest: matchedId_nonempty)
  let ?teamsData = "[(''Alpha'', \<lparr>ref_id = TeamId a\<rparr>), (''Beta'', \<lparr>ref_id = TeamId b\<rparr>)]"
  let ?s1 = "(performed (Call_getTeams X) s)\<lparr>teamCache := cache\<rparr>"
  have resolve: "foldl (resolveAllowed teamMap) ([], []) [''Alpha'', ''Beta''] = (?teamsData, [])"
    using a b ne by (intro resolve_Alpha_Beta) (simp_all add: look)
  have ids: "getAllowedTeamIds conn X [''Alpha'', ''Beta''] s = (Inr ?teamsData, ?s1)"
    using resolve by (simp add: getAllowedTeamIds_def fetched index)
  have keys: "obj_keys ?teamsData = [''Alpha'', ''Beta'']"
    by (simp add: obj_keys_def)
  have log: "calls ?s1 = calls s @ [Call_getTeams X]"
    by (simp add: performed_def)
  have wiql: "buildWiql X [areaPathCondition X ''Alpha'', areaPathCondition X ''Beta'']
      = ''SELECT [System.Id] FROM WorkItems WHERE [System.TeamProject] = ''
           @ [quote] @ X @ [quote]
           @ '' AND ([System.AreaPath] UNDER '' @ [quote] @ X @ [backslash] @ ''Alpha'' @ [quote]
           @ '' OR [System.AreaPath] UNDER '' @ [quote] @ X @ [backslash] @ ''Beta'' @ [quote]
           @ '') ORDER BY [System.Id]''"
    by (simp add: buildWiql_def areaPathCondition_def)
  from allowed
  have top: "validateTeamBoardAccess config conn (defaultProject imp) None s = (Inr (), s)"
    by (simp add: top_level_check_passes)
  have "handleWorkItemsRequest imp conn request (Some config) s
      = case_list_work_items imp conn request (Some config) s"
    by (simp add: handleWorkItemsRequest_def top name)
  also have "\<dots> = respond (Call_listWorkItems scoped) (listWorkItems conn (calls ?s1) scoped) ?s1"
    using noTeam
    by (auto simp: case_list_work_items_def args allowed project [symmetric] Let_def ids keys
        wiql scoped)
  finally show ?thesis using ids keys log by blast
qed

theorem C8_query_for_two_allowed_teams_witness:
  "matchingTeams exampleTeams ''Alpha'' \<noteq> []
   \<and> matchingTeams exampleTeams ''Beta'' \<noteq> []
   \<and> (\<exists>teamsData s1.
         getAllowedTeamIds exampleConnection ''ProjectX'' [''Alpha'', ''Beta''] emptyState
           = (Inr teamsData, s1)
       \<and> obj_keys teamsData = [''Alpha'', ''Beta'']
       \<and> calls s1 = calls emptyState @ [Call_getTeams ''ProjectX'']
       \<and> handleWorkItemsRequest exampleImports exampleConnection exampleList
             (Some (exampleConfig (Some ''Alpha,Beta''))) emptyState
           = respond
               (Call_listWorkItems
                  \<lparr>lo_projectId = ''ProjectX'', lo_teamId = None, lo_queryId = None,
                   lo_wiql = Some (''SELECT [System.Id] FROM WorkItems WHERE [System.TeamProject] = ''
                     @ [quote] @ ''ProjectX'' @ [quote]
                     @ '' AND ([System.AreaPath] UNDER ''
                     @ [quote] @ ''ProjectX'' @ [backslash] @ ''Alpha'' @ [quote]
                     @ '' OR [System.AreaPath] UNDER ''
                     @ [quote] @ ''ProjectX'' @ [backslash] @ ''Beta'' @ [quote]
                     @ '') ORDER BY [System.Id]''),
                   lo_top = None, lo_skip = None\<rparr>)
               (listWorkItems exampleConnection (calls s1)
                  \<lparr>lo_projectId = ''ProjectX'', lo_teamId = None, lo_queryId = None,
                   lo_wiql = Some (''SELECT [System.Id] FROM WorkItems WHERE [System.TeamProject] = ''
                     @ [quote] @ ''ProjectX'' @ [quote]
                     @ '' AND ([System.AreaPath] UNDER ''
                     @ [quote] @ ''ProjectX'' @ [backslash] @ ''Alpha'' @ [quote]
                     @ '' OR [System.AreaPath] UNDER ''
                     @ [quote] @ ''ProjectX'' @ [backslash] @ ''Beta'' @ [quote]
                     @ '') ORDER BY [System.Id]''),
                   lo_top = None, lo_skip = None\<rparr>)
               s1)"
proof -
  let ?args = "\<lparr>la_projectId = None, la_teamId = None, la_queryId = None, la_wiql = None,
      la_top = None, la_skip = None\<rparr>"
  have name: "req_name exampleList = ''list_work_items''"
    by (simp add: exampleList_def)
  have args: "ListWorkItemsSchema exampleImports (req_arguments exampleList) = Inr ?args"
    by (simp add: exampleList_def exampleImports_def stringArg_def numberArg_def)
  have noTeam: "la_teamId ?args = None \<or> la_teamId ?args = Some []"
    by simp
  have project: "''ProjectX'' =
      (case la_projectId ?args of None \<Rightarrow> defaultProject exampleImports | Some p \<Rightarrow> p)"
    by (simp add: exampleImports_def)
  have fetched: "api_getTeams exampleConnection (calls emptyState) ''ProjectX'' = Inr exampleTeams"
    by (simp add: exampleConnection_def)
  have resolvable: "matchingTeams exampleTeams ''Alpha'' \<noteq> []"
      "matchingTeams exampleTeams ''Beta'' \<noteq> []"
    by (simp_all add: matchingTeams_def indexedAs_def exampleTeams_def string_defs)
  from C8_query_for_two_allowed_teams [OF name args noTeam project parse_Alpha_Beta fetched
      resolvable refl]
    resolvable
  show ?thesis by simp
qed

end
